theory Spec2Isabelle
  imports Complex_Main
begin

section \<open>Data model\<close>

text \<open>
  A landmark is the three-element list \<open>[lm.x, lm.y, lm.z]\<close> that the camera loop of
  \<open>controller.py\<close> builds for every detected point; a hand frame is the list of those.
  Python floats are read as mathematical reals throughout: comparisons against the
  thresholds of the source are exact, rounding is not modelled.
\<close>

type_synonym landmark = "real \<times> real \<times> real"
type_synonym hand_frame = "landmark list"

datatype error = IndexError

definition lm_x :: "landmark \<Rightarrow> real" where
  "lm_x p = fst p"

definition lm_y :: "landmark \<Rightarrow> real" where
  "lm_y p = fst (snd p)"

definition lm_z :: "landmark \<Rightarrow> real" where
  "lm_z p = snd (snd p)"

text \<open>\<open>np.linalg.norm\<close> and \<open>np.dot\<close> on two-component arrays.\<close>

definition norm2 :: "real \<times> real \<Rightarrow> real" where
  "norm2 v = sqrt ((fst v)\<^sup>2 + (snd v)\<^sup>2)"

definition dot2 :: "real \<times> real \<Rightarrow> real \<times> real \<Rightarrow> real" where
  "dot2 v w = fst v * fst w + snd v * snd w"

definition div2 :: "real \<times> real \<Rightarrow> real \<Rightarrow> real \<times> real" where
  "div2 v c = (fst v / c, snd v / c)"

text \<open>\<open>np.linalg.norm\<close> on three-component arrays, and their difference.\<close>

definition sub3 :: "landmark \<Rightarrow> landmark \<Rightarrow> landmark" where
  "sub3 p q = (lm_x p - lm_x q, lm_y p - lm_y q, lm_z p - lm_z q)"

definition norm3 :: "landmark \<Rightarrow> real" where
  "norm3 v = sqrt ((lm_x v)\<^sup>2 + (lm_y v)\<^sup>2 + (lm_z v)\<^sup>2)"

section \<open>Thumb extension\<close>

text \<open>
  The body shared by \<open>GestureSystem.is_thumb_extended\<close> and
  \<open>PrecisionHandTracker.is_thumb_extended\<close>: the two vectors wrist to thumb base and
  thumb base to thumb tip, over x and y only, are normalised when both have positive
  length and compared through their dot product; otherwise the answer is \<open>False\<close>.
\<close>

definition thumb_aligned :: "landmark \<Rightarrow> landmark \<Rightarrow> landmark \<Rightarrow> bool" where
  "thumb_aligned wrist thumb_mcp thumb_tip =
     (let wrist_to_mcp = (lm_x thumb_mcp - lm_x wrist, lm_y thumb_mcp - lm_y wrist);
          mcp_to_tip = (lm_x thumb_tip - lm_x thumb_mcp, lm_y thumb_tip - lm_y thumb_mcp);
          wrist_to_mcp_norm = norm2 wrist_to_mcp;
          mcp_to_tip_norm = norm2 mcp_to_tip
      in if wrist_to_mcp_norm > 0 \<and> mcp_to_tip_norm > 0
         then dot2 (div2 wrist_to_mcp wrist_to_mcp_norm) (div2 mcp_to_tip mcp_to_tip_norm) > 0.7
         else False)"

text \<open>
  \<open>GestureSystem.is_thumb_extended\<close> reads the landmarks 4, 2 and 0 before its
  \<open>try\<close> block, so a frame without index 4 raises.
\<close>

definition is_thumb_extended :: "hand_frame \<Rightarrow> error + bool" where
  "is_thumb_extended landmarks =
     (if length landmarks \<le> 4 then Inl IndexError
      else Inr (thumb_aligned (landmarks ! 0) (landmarks ! 2) (landmarks ! 4)))"

section \<open>Mode toggle (controller.py)\<close>

record controller =
  last_action_time :: real
  action_cooldown :: real
  camera_control_active :: bool
  action_text :: string
  mode_toggle_cooldown :: real
  mode_toggle_cooldown_time :: real
  cad_active :: bool

text \<open>
  \<open>toggle_cad_mode\<close>: flips the CAD flag and announces the new mode. Sound, the
  overlay widgets and the bookkeeping of the CAD session (tool, grid, selection) are
  outside the model.
\<close>

definition toggle_cad_mode :: "controller \<Rightarrow> controller" where
  "toggle_cad_mode st =
     (let active = \<not> cad_active st
      in st\<lparr>cad_active := active,
            action_text := (if active then ''CAD MODE ACTIVATED'' else ''NORMAL MODE ACTIVATED'')\<rparr>)"

text \<open>
  The pose test of \<open>check_for_mode_toggle\<close>: thumb extended and each of the four
  finger tips above its base joint (5, 9, 13, 17). The highest index read is 20.
\<close>

definition all_fingers_extended :: "hand_frame \<Rightarrow> error + bool" where
  "all_fingers_extended landmarks =
     (case is_thumb_extended landmarks of
        Inl e \<Rightarrow> Inl e
      | Inr thumb_extended \<Rightarrow>
          if length landmarks \<le> 20 then Inl IndexError
          else
            let index_extended = lm_y (landmarks ! 8) < lm_y (landmarks ! 5);
                middle_extended = lm_y (landmarks ! 12) < lm_y (landmarks ! 9);
                ring_extended = lm_y (landmarks ! 16) < lm_y (landmarks ! 13);
                pinky_extended = lm_y (landmarks ! 20) < lm_y (landmarks ! 17)
            in Inr (thumb_extended \<and> index_extended \<and> middle_extended
                    \<and> ring_extended \<and> pinky_extended))"

text \<open>
  The timer update of \<open>check_for_mode_toggle\<close>, with the pose flag and the frame time
  \<open>time.dt\<close> as arguments. The boolean returned says whether \<open>toggle_cad_mode\<close> was
  called in this step.
\<close>

definition mode_toggle_step :: "bool \<Rightarrow> real \<Rightarrow> controller \<Rightarrow> bool \<times> controller" where
  "mode_toggle_step all_extended dt st =
     (if all_extended then
        (if mode_toggle_cooldown st > 0 then
           (let st1 = st\<lparr>mode_toggle_cooldown := mode_toggle_cooldown st - dt\<rparr>
            in if mode_toggle_cooldown st1 \<le> 0
               then (True, (toggle_cad_mode st1)
                       \<lparr>mode_toggle_cooldown := - mode_toggle_cooldown_time st1\<rparr>)
               else (False, st1))
         else if mode_toggle_cooldown st = 0 then
           (False, st\<lparr>mode_toggle_cooldown := mode_toggle_cooldown_time st,
                      action_text := ''HOLD TO SWITCH MODES...''\<rparr>)
         else (False, st))
      else
        (if mode_toggle_cooldown st > 0 then (False, st\<lparr>mode_toggle_cooldown := 0\<rparr>)
         else if mode_toggle_cooldown st < 0 then
           (False, st\<lparr>mode_toggle_cooldown := min 0 (mode_toggle_cooldown st + dt)\<rparr>)
         else (False, st)))"

definition check_for_mode_toggle ::
  "hand_frame \<Rightarrow> real \<Rightarrow> controller \<Rightarrow> error + bool \<times> controller" where
  "check_for_mode_toggle landmarks dt st =
     (case all_fingers_extended landmarks of
        Inl e \<Rightarrow> Inl e
      | Inr all_extended \<Rightarrow> Inr (mode_toggle_step all_extended dt st))"

text \<open>The three states the timer value stands for.\<close>

datatype toggle_phase = Idle | Arming | Cooling

definition phase_of :: "controller \<Rightarrow> toggle_phase" where
  "phase_of st =
     (if mode_toggle_cooldown st = 0 then Idle
      else if mode_toggle_cooldown st > 0 then Arming else Cooling)"

text \<open>
  A run of frames, each given by its pose flag and its \<open>dt\<close>; the result counts the
  toggle events fired.
\<close>

fun run_toggle :: "controller \<Rightarrow> (bool \<times> real) list \<Rightarrow> nat \<times> controller" where
  "run_toggle st [] = (0, st)"
| "run_toggle st ((p, dt) # fs) =
     (let (fired, st1) = mode_toggle_step p dt st;
          (n, st2) = run_toggle st1 fs
      in ((if fired then 1 else 0) + n, st2))"

text \<open>Two controller states used as concrete inputs below.\<close>

definition cooling_example :: controller where
  "cooling_example =
     \<lparr>last_action_time = 0, action_cooldown = 4/5, camera_control_active = False,
      action_text = [], mode_toggle_cooldown = - 1, mode_toggle_cooldown_time = 1,
      cad_active = True\<rparr>"

definition idle_example :: controller where
  "idle_example =
     \<lparr>last_action_time = 0, action_cooldown = 4/5, camera_control_active = False,
      action_text = [], mode_toggle_cooldown = 0, mode_toggle_cooldown_time = 1,
      cad_active = False\<rparr>"

section \<open>Action dispatcher (controller.py)\<close>

text \<open>
  What a call of \<open>execute_gesture_action\<close> sets off in the 3D world: the helper it
  calls (\<open>spawn_drone\<close>, \<open>shoot_bullet\<close>, \<open>spawn_box\<close>, \<open>rotate_all_objects\<close>,
  \<open>create_explosion\<close>) or, for the open palm, the switch to camera control.
\<close>

datatype action =
  SpawnDrone | ShootBullet | SpawnBox | RotateAllObjects | CreateExplosion | CameraControl

text \<open>
  \<open>execute_gesture_action\<close>, with \<open>time.time()\<close> as the argument \<open>current_time\<close>.
  The result is the action set off, if any, and the controller afterwards.
\<close>

definition execute_gesture_action ::
  "string \<Rightarrow> real \<Rightarrow> controller \<Rightarrow> action option \<times> controller" where
  "execute_gesture_action gesture current_time st =
     (if current_time - last_action_time st < action_cooldown st \<and> gesture \<noteq> ''open_palm''
      then (None, st)
      else if gesture = ''fist'' then
        (Some SpawnDrone,
         st\<lparr>action_text := ''DRONE DEPLOYED!'', last_action_time := current_time\<rparr>)
      else if gesture = ''peace'' then
        (Some ShootBullet,
         st\<lparr>action_text := ''BULLET FIRED!'', last_action_time := current_time\<rparr>)
      else if gesture = ''pinch'' then
        (Some SpawnBox,
         st\<lparr>action_text := ''BOX SPAWNED!'', last_action_time := current_time\<rparr>)
      else if gesture = ''thumbs_up'' then
        (Some RotateAllObjects,
         st\<lparr>action_text := ''OBJECTS ROTATED!'', last_action_time := current_time\<rparr>)
      else if gesture = ''rock_sign'' then
        (Some CreateExplosion,
         st\<lparr>action_text := ''EXPLOSION!'', last_action_time := current_time\<rparr>)
      else if gesture = ''open_palm'' then
        (Some CameraControl,
         st\<lparr>action_text := ''CAMERA CONTROL ACTIVE'', camera_control_active := True\<rparr>)
      else
        (None, st\<lparr>camera_control_active := False, last_action_time := current_time\<rparr>))"

text \<open>
  The gestures of a run, each with the clock value of its call; the result lists the
  actions set off, in order.
\<close>

fun run_actions :: "controller \<Rightarrow> (string \<times> real) list \<Rightarrow> action list \<times> controller" where
  "run_actions st [] = ([], st)"
| "run_actions st ((g, now) # gs) =
     (let (a, st1) = execute_gesture_action g now st;
          (as, st2) = run_actions st1 gs
      in ((case a of None \<Rightarrow> [] | Some x \<Rightarrow> [x]) @ as, st2))"

text \<open>
  The controller as \<open>__init__\<close> leaves it; the action text is the one that
  \<open>UIManager.setup_ui\<close> gives the display.
\<close>

definition controller_init :: controller where
  "controller_init =
     \<lparr>last_action_time = 0, action_cooldown = 0.8, camera_control_active = False,
      action_text = ''Waiting for gesture...'', mode_toggle_cooldown = 0,
      mode_toggle_cooldown_time = 1.0, cad_active = False\<rparr>"

section \<open>Coarse gesture classifier (gesture_system.py)\<close>

record gesture_system =
  gesture_confidence :: "(string \<times> real) list"
  gesture_history :: "(string \<times> real) list"
  max_history :: nat
  last_gesture_time :: real
  gesture_cooldown :: real

text \<open>The classifier as \<open>GestureSystem.__init__\<close> leaves it.\<close>

definition gesture_system_init :: gesture_system where
  "gesture_system_init =
     \<lparr>gesture_confidence = [], gesture_history = [], max_history = 10,
      last_gesture_time = 0, gesture_cooldown = 1.0\<rparr>"

text \<open>
  The five extension flags of \<open>detect_gesture\<close>, in the order of its list
  \<open>finger_states\<close>: the thumb by alignment, the other four by the tip (8, 12, 16, 20)
  lying above the middle joint (6, 10, 14, 18).
\<close>

definition finger_states :: "hand_frame \<Rightarrow> bool list" where
  "finger_states landmarks =
     [thumb_aligned (landmarks ! 0) (landmarks ! 2) (landmarks ! 4),
      lm_y (landmarks ! 8) < lm_y (landmarks ! 6),
      lm_y (landmarks ! 12) < lm_y (landmarks ! 10),
      lm_y (landmarks ! 16) < lm_y (landmarks ! 14),
      lm_y (landmarks ! 20) < lm_y (landmarks ! 18)]"

text \<open>
  The pinch distance of \<open>detect_gesture\<close>: thumb tip and index tip are taken as the
  two-component arrays \<open>[x, y]\<close>, and the distance is
  \<open>np.sqrt(np.sum((thumb_tip - index_tip) ** 2))\<close>.
\<close>

definition coarse_pinch_distance :: "hand_frame \<Rightarrow> real" where
  "coarse_pinch_distance landmarks =
     (let thumb_tip = (lm_x (landmarks ! 4), lm_y (landmarks ! 4));
          index_tip = (lm_x (landmarks ! 8), lm_y (landmarks ! 8))
      in sqrt ((fst thumb_tip - fst index_tip)\<^sup>2 + (snd thumb_tip - snd index_tip)\<^sup>2))"

text \<open>Python's \<open>sum\<close> over a list of booleans: the number of \<open>True\<close> entries.\<close>

definition sum_bool :: "bool list \<Rightarrow> nat" where
  "sum_bool bs = length (filter (\<lambda>b. b) bs)"

text \<open>
  The six scoring rules, as the dictionary \<open>confidences\<close> in its insertion order. Each
  rule is tested on its own.
\<close>

definition score_gestures :: "bool list \<Rightarrow> real \<Rightarrow> (string \<times> real) list" where
  "score_gestures states pinch_distance =
     (let thumb_extended = states ! 0; index_extended = states ! 1;
          middle_extended = states ! 2; ring_extended = states ! 3;
          pinky_extended = states ! 4;
          is_pinching = pinch_distance < 0.05
      in [(''fist'', if sum_bool states \<le> 1 then 0.8 else 0),
          (''thumbs_up'',
             if thumb_extended \<and> \<not> index_extended \<and> \<not> middle_extended
                \<and> \<not> ring_extended \<and> \<not> pinky_extended then 0.9 else 0),
          (''peace'',
             if \<not> thumb_extended \<and> index_extended \<and> middle_extended
                \<and> \<not> ring_extended \<and> \<not> pinky_extended then 0.9 else 0),
          (''open_palm'', if sum_bool states \<ge> 4 then 0.9 else 0),
          (''pinch'', if is_pinching then 0.8 else 0),
          (''rock_sign'',
             if index_extended \<and> \<not> middle_extended \<and> \<not> ring_extended
                \<and> pinky_extended then 0.8 else 0)])"

text \<open>
  Python's \<open>max(items, key=...)\<close>: the first item whose key no later item exceeds
  strictly.
\<close>

fun max_by_value :: "string \<times> real \<Rightarrow> (string \<times> real) list \<Rightarrow> string \<times> real" where
  "max_by_value best [] = best"
| "max_by_value best (x # xs) = max_by_value (if snd x > snd best then x else best) xs"

text \<open>
  \<open>detect_gesture\<close>, with \<open>time.time()\<close> as the argument \<open>now\<close>. An empty frame
  gives \<open>none\<close>. Otherwise the landmarks 0 to 20 are read before anything is stored, so
  a shorter frame raises and leaves the classifier as it was.
\<close>

definition detect_gesture ::
  "hand_frame \<Rightarrow> real \<Rightarrow> gesture_system \<Rightarrow> error + string \<times> gesture_system" where
  "detect_gesture landmarks now gs =
     (if landmarks = [] then Inr (''none'', gs)
      else if length landmarks \<le> 20 then Inl IndexError
      else
        let confidences = score_gestures (finger_states landmarks)
                            (coarse_pinch_distance landmarks);
            gs1 = gs\<lparr>gesture_confidence := confidences\<rparr>;
            best_gesture = max_by_value (hd confidences) (tl confidences)
        in if snd best_gesture > 0.5 then
             (let gesture = fst best_gesture
              in if now - last_gesture_time gs1 > gesture_cooldown gs1 then
                   (let h = gesture_history gs1 @ [(gesture, now)];
                        h1 = (if length h > max_history gs1 then tl h else h)
                    in Inr (gesture, gs1\<lparr>gesture_history := h1, last_gesture_time := now\<rparr>))
                 else Inr (gesture, gs1))
           else Inr (''unknown'', gs1))"

text \<open>
  A run of calls, each with its frame and clock value; it stops at the first call that
  raises. The result lists the gestures returned.
\<close>

fun run_detect ::
  "gesture_system \<Rightarrow> (hand_frame \<times> real) list \<Rightarrow> error + string list \<times> gesture_system" where
  "run_detect gs [] = Inr ([], gs)"
| "run_detect gs ((landmarks, now) # cs) =
     (case detect_gesture landmarks now gs of
        Inl e \<Rightarrow> Inl e
      | Inr (g, gs1) \<Rightarrow>
          (case run_detect gs1 cs of
             Inl e \<Rightarrow> Inl e
           | Inr (gs', gs2) \<Rightarrow> Inr (g # gs', gs2)))"

text \<open>
  The predicate and the confidence that the specification's table of the coarse
  classifier gives for each gesture, read over the classifier's own extension flags and
  pinch distance. They are what the claims compare \<open>detect_gesture\<close> with.
\<close>

definition gesture_names :: "string list" where
  "gesture_names = [''fist'', ''thumbs_up'', ''peace'', ''open_palm'', ''pinch'', ''rock_sign'']"

definition spec_predicate :: "string \<Rightarrow> hand_frame \<Rightarrow> bool" where
  "spec_predicate g landmarks =
     (let s = finger_states landmarks;
          thumb = s ! 0; index = s ! 1; middle = s ! 2; ring = s ! 3; pinky = s ! 4
      in if g = ''fist'' then sum_bool s \<le> 1
         else if g = ''thumbs_up'' then thumb \<and> \<not> index \<and> \<not> middle \<and> \<not> ring \<and> \<not> pinky
         else if g = ''peace'' then \<not> thumb \<and> index \<and> middle \<and> \<not> ring \<and> \<not> pinky
         else if g = ''open_palm'' then sum_bool s \<ge> 4
         else if g = ''pinch'' then coarse_pinch_distance landmarks < 0.05
         else if g = ''rock_sign'' then index \<and> pinky \<and> \<not> middle \<and> \<not> ring
         else False)"

definition spec_confidence :: "string \<Rightarrow> real" where
  "spec_confidence g =
     (if g = ''fist'' then 0.8
      else if g = ''thumbs_up'' then 0.9
      else if g = ''peace'' then 0.9
      else if g = ''open_palm'' then 0.9
      else if g = ''pinch'' then 0.8
      else if g = ''rock_sign'' then 0.8
      else 0)"

section \<open>Example frames\<close>

text \<open>
  A hand seen from the palm side, wrist at the bottom (y grows downwards). The thumb
  tip and the index tip are given whole, the other three tips by their height. The
  middle joints of the four fingers are at height 0.5 and their base joints at 0.6.
\<close>

definition pose_frame :: "landmark \<Rightarrow> landmark \<Rightarrow> real \<Rightarrow> real \<Rightarrow> real \<Rightarrow> hand_frame" where
  "pose_frame thumb_tip index_tip middle_y ring_y pinky_y =
     [(0.5, 0.9, 0), (0.45, 0.85, 0), (0.4, 0.8, 0), (0.35, 0.75, 0), thumb_tip,
      (0.45, 0.6, 0), (0.45, 0.5, 0), (0.45, 0.45, 0), index_tip,
      (0.5, 0.6, 0), (0.5, 0.5, 0), (0.5, 0.45, 0), (0.5, middle_y, 0),
      (0.55, 0.6, 0), (0.55, 0.5, 0), (0.55, 0.45, 0), (0.55, ring_y, 0),
      (0.6, 0.6, 0), (0.6, 0.5, 0), (0.6, 0.45, 0), (0.6, pinky_y, 0)]"

text \<open>Thumb tips: stretched out along the thumb base, and folded across it.\<close>

definition thumb_out :: landmark where
  "thumb_out = (0.3, 0.7, 0)"

definition thumb_in :: landmark where
  "thumb_in = (0.42, 0.78, 0)"

text \<open>Index tips: raised and folded.\<close>

definition index_up :: landmark where
  "index_up = (0.45, 0.3, 0)"

definition index_down :: landmark where
  "index_down = (0.45, 0.7, 0)"

definition fist_frame :: hand_frame where
  "fist_frame = pose_frame thumb_in index_down 0.7 0.7 0.7"

definition thumbs_up_frame :: hand_frame where
  "thumbs_up_frame = pose_frame thumb_out index_down 0.7 0.7 0.7"

definition peace_frame :: hand_frame where
  "peace_frame = pose_frame thumb_in index_up 0.3 0.7 0.7"

definition open_palm_frame :: hand_frame where
  "open_palm_frame = pose_frame thumb_out index_up 0.3 0.3 0.3"

definition rock_sign_frame :: hand_frame where
  "rock_sign_frame = pose_frame thumb_in index_up 0.7 0.7 0.3"

definition phone_frame :: hand_frame where
  "phone_frame = pose_frame thumb_out index_up 0.7 0.7 0.3"

text \<open>
  Thumb, middle and ring stretched, index folded down to the thumb tip: no finger
  pattern of the coarse classifier matches, only the pinch distance is small.
\<close>

definition pinch_frame :: hand_frame where
  "pinch_frame = pose_frame thumb_out (0.32, 0.7, 0) 0.3 0.3 0.7"

text \<open>Index tip 0.0499 and 0.0501 to the right of the thumb tip, at the same depth.\<close>

definition pinch_near_frame :: hand_frame where
  "pinch_near_frame = pose_frame thumb_out (0.3499, 0.7, 0) 0.3 0.3 0.7"

definition pinch_far_frame :: hand_frame where
  "pinch_far_frame = pose_frame thumb_out (0.3501, 0.7, 0) 0.3 0.3 0.7"

text \<open>Index tip straight behind the thumb tip, 0.2 deeper.\<close>

definition pinch_depth_frame :: hand_frame where
  "pinch_depth_frame = pose_frame thumb_out (0.3, 0.7, 0.2) 0.3 0.3 0.7"

section \<open>Precision tracker (precision_tracking.py)\<close>

text \<open>
  The Kalman filters come from the library \<open>filterpy\<close>, which is not part of the
  repository. A filter is therefore any state type \<open>'f\<close> with two operations handed to
  \<open>update\<close>: \<open>kf_step\<close>, one \<open>predict()\<close> followed by one \<open>update(pos)\<close>, and
  \<open>kf_pos\<close>, the position part \<open>x[:3]\<close> of the state. The dictionary \<open>filters\<close> is
  only ever read at its five keys and is a function on the indices here.
\<close>

record 'f tracker =
  prev_landmarks :: "hand_frame option"
  landmark_history :: "hand_frame list"
  history_max :: nat
  filters :: "nat \<Rightarrow> 'f"

text \<open>
  The dictionary returned by \<open>update\<close>. Its entry \<open>hand_orientation\<close> is computed by
  \<open>scipy\<close> inside a \<open>try\<close> block, is read by none of the functions below and is
  left out.
\<close>

record tracker_output =
  out_landmarks :: hand_frame
  out_velocities :: "nat \<rightharpoonup> landmark"
  out_stable_palm :: landmark

definition fingertips :: "nat list" where
  "fingertips = [4, 8, 12, 16, 20]"

text \<open>\<open>_get_stable_palm\<close>: the mean of the wrist and the five base joints.\<close>

definition get_stable_palm :: "hand_frame \<Rightarrow> landmark" where
  "get_stable_palm landmarks =
     (let palm_points = map (\<lambda>i. landmarks ! i) [0, 1, 5, 9, 13, 17]
      in (sum_list (map lm_x palm_points) / 6, sum_list (map lm_y palm_points) / 6,
          sum_list (map lm_z palm_points) / 6))"

text \<open>
  The filtering loop of \<open>update\<close>: for each fingertip the filter is advanced with the
  raw position and the filtered position replaces the fingertip in the copy.
\<close>

fun filter_tips ::
  "('f \<Rightarrow> landmark \<Rightarrow> 'f) \<Rightarrow> ('f \<Rightarrow> landmark) \<Rightarrow> nat list \<Rightarrow> hand_frame \<Rightarrow>
     (nat \<Rightarrow> 'f) \<Rightarrow> hand_frame \<Rightarrow> hand_frame \<times> (nat \<Rightarrow> 'f)" where
  "filter_tips kf_step kf_pos [] landmarks fs filtered_landmarks = (filtered_landmarks, fs)"
| "filter_tips kf_step kf_pos (i # is) landmarks fs filtered_landmarks =
     (let f = kf_step (fs i) (landmarks ! i)
      in filter_tips kf_step kf_pos is landmarks (fs(i := f))
           (filtered_landmarks[i := kf_pos f]))"

text \<open>
  \<open>update\<close>. A frame without index 20 raises inside the filtering loop. The velocity
  map is filled only when a previous frame is stored; the stored frame is replaced by
  the filtered one at the end and is never cleared.
\<close>

definition update ::
  "('f \<Rightarrow> landmark \<Rightarrow> 'f) \<Rightarrow> ('f \<Rightarrow> landmark) \<Rightarrow> hand_frame option \<Rightarrow> 'f tracker \<Rightarrow>
     error + tracker_output option \<times> 'f tracker" where
  "update kf_step kf_pos landmarks_arg tr =
     (case landmarks_arg of
        None \<Rightarrow> Inr (None, tr)
      | Some landmarks \<Rightarrow>
          if length landmarks \<le> 20 then Inl IndexError
          else
            let h = landmark_history tr @ [landmarks];
                h1 = (if length h > history_max tr then tl h else h);
                (filtered_landmarks, fs) =
                   filter_tips kf_step kf_pos fingertips landmarks (filters tr) landmarks
            in (case prev_landmarks tr of
                  None \<Rightarrow>
                    Inr (Some \<lparr>out_landmarks = filtered_landmarks, out_velocities = Map.empty,
                               out_stable_palm = get_stable_palm filtered_landmarks\<rparr>,
                         tr\<lparr>landmark_history := h1, filters := fs,
                            prev_landmarks := Some filtered_landmarks\<rparr>)
                | Some prev \<Rightarrow>
                    if length prev \<le> 20 then Inl IndexError
                    else
                      Inr (Some \<lparr>out_landmarks = filtered_landmarks,
                                 out_velocities =
                                   map_of (map (\<lambda>i. (i, sub3 (filtered_landmarks ! i) (prev ! i)))
                                             fingertips),
                                 out_stable_palm = get_stable_palm filtered_landmarks\<rparr>,
                           tr\<lparr>landmark_history := h1, filters := fs,
                              prev_landmarks := Some filtered_landmarks\<rparr>)))"

text \<open>The tracker as \<open>PrecisionHandTracker.__init__\<close> leaves it, for given filters.\<close>

definition tracker_init :: "(nat \<Rightarrow> 'f) \<Rightarrow> 'f tracker" where
  "tracker_init fs =
     \<lparr>prev_landmarks = None, landmark_history = [], history_max = 5, filters = fs\<rparr>"

subsection \<open>Precision gestures\<close>

text \<open>
  \<open>PrecisionHandTracker.is_thumb_extended\<close>: the same computation as in the coarse
  classifier; it reads the landmarks 4, 3, 2 and 0 first.
\<close>

definition pt_is_thumb_extended :: "hand_frame \<Rightarrow> error + bool" where
  "pt_is_thumb_extended landmarks =
     (if length landmarks \<le> 4 then Inl IndexError
      else Inr (thumb_aligned (landmarks ! 0) (landmarks ! 2) (landmarks ! 4)))"

text \<open>
  \<open>detect_tool_selection_gesture\<close>: the chain of \<open>if\<close> and \<open>elif\<close> in its order.
  The four fingers are tested against their base joints 5, 9, 13 and 17.
\<close>

definition detect_tool_selection_gesture :: "hand_frame \<Rightarrow> error + (string \<times> real) option" where
  "detect_tool_selection_gesture landmarks =
     (case pt_is_thumb_extended landmarks of
        Inl e \<Rightarrow> Inl e
      | Inr thumb_extended \<Rightarrow>
          if length landmarks \<le> 20 then Inl IndexError
          else
            let index_extended = lm_y (landmarks ! 8) < lm_y (landmarks ! 5);
                middle_extended = lm_y (landmarks ! 12) < lm_y (landmarks ! 9);
                ring_extended = lm_y (landmarks ! 16) < lm_y (landmarks ! 13);
                pinky_extended = lm_y (landmarks ! 20) < lm_y (landmarks ! 17)
            in if index_extended \<and> \<not> middle_extended \<and> \<not> ring_extended \<and> \<not> pinky_extended
               then Inr (Some (''select'', 0.9))
               else if index_extended \<and> middle_extended \<and> \<not> ring_extended \<and> \<not> pinky_extended
               then Inr (Some (''create'', 0.9))
               else if index_extended \<and> middle_extended \<and> ring_extended \<and> \<not> pinky_extended
               then Inr (Some (''move'', 0.9))
               else if index_extended \<and> middle_extended \<and> ring_extended \<and> pinky_extended
               then Inr (Some (''scale'', 0.9))
               else if thumb_extended \<and> index_extended \<and> \<not> middle_extended
                       \<and> \<not> ring_extended \<and> pinky_extended
               then Inr (Some (''rotate'', 0.9))
               else if index_extended \<and> \<not> middle_extended \<and> \<not> ring_extended
                       \<and> pinky_extended \<and> \<not> thumb_extended
               then Inr (Some (''extrude'', 0.9))
               else Inr None)"

text \<open>
  The six conditions of that chain, each on its own, in the order of the chain; they
  serve to count how many of them a frame satisfies.
\<close>

definition tool_patterns :: "hand_frame \<Rightarrow> bool list" where
  "tool_patterns landmarks =
     (let thumb_extended = thumb_aligned (landmarks ! 0) (landmarks ! 2) (landmarks ! 4);
          index_extended = lm_y (landmarks ! 8) < lm_y (landmarks ! 5);
          middle_extended = lm_y (landmarks ! 12) < lm_y (landmarks ! 9);
          ring_extended = lm_y (landmarks ! 16) < lm_y (landmarks ! 13);
          pinky_extended = lm_y (landmarks ! 20) < lm_y (landmarks ! 17)
      in [index_extended \<and> \<not> middle_extended \<and> \<not> ring_extended \<and> \<not> pinky_extended,
          index_extended \<and> middle_extended \<and> \<not> ring_extended \<and> \<not> pinky_extended,
          index_extended \<and> middle_extended \<and> ring_extended \<and> \<not> pinky_extended,
          index_extended \<and> middle_extended \<and> ring_extended \<and> pinky_extended,
          thumb_extended \<and> index_extended \<and> \<not> middle_extended \<and> \<not> ring_extended
            \<and> pinky_extended,
          index_extended \<and> \<not> middle_extended \<and> \<not> ring_extended \<and> pinky_extended
            \<and> \<not> thumb_extended])"

text \<open>\<open>_is_index_precision_pointing\<close>: the pointing pose and a slow index tip.\<close>

definition is_index_precision_pointing :: "hand_frame \<Rightarrow> (nat \<rightharpoonup> landmark) \<Rightarrow> bool" where
  "is_index_precision_pointing landmarks velocities =
     (let index_extended = lm_y (landmarks ! 8) < lm_y (landmarks ! 5);
          middle_closed = \<not> (lm_y (landmarks ! 12) < lm_y (landmarks ! 9));
          ring_closed = \<not> (lm_y (landmarks ! 16) < lm_y (landmarks ! 13));
          pinky_closed = \<not> (lm_y (landmarks ! 20) < lm_y (landmarks ! 17));
          pointing = (index_extended \<and> middle_closed \<and> ring_closed \<and> pinky_closed);
          stable = (case velocities 8 of
                      None \<Rightarrow> False
                    | Some v \<Rightarrow> norm3 v < 0.01)
      in pointing \<and> stable)"

text \<open>
  \<open>_get_pointing_direction\<close> and \<open>_get_middle_direction\<close>: the unit vector from the
  middle joint to the tip, or \<open>(0, 0, 1)\<close> when the two coincide. Both points are
  three-component landmarks here. The library filter hands back its positions as
  columns, and for a filtered tip against an unfiltered joint \<open>numpy\<close> then
  broadcasts the difference to a 3 by 3 array; that shape is not modelled, and no
  property below reads the direction.
\<close>

definition finger_direction :: "landmark \<Rightarrow> landmark \<Rightarrow> landmark" where
  "finger_direction tip pip =
     (let direction = sub3 tip pip; mag = norm3 direction
      in if mag > 0 then (lm_x direction / mag, lm_y direction / mag, lm_z direction / mag)
         else (0, 0, 1))"

definition get_pointing_direction :: "hand_frame \<Rightarrow> landmark" where
  "get_pointing_direction landmarks = finger_direction (landmarks ! 8) (landmarks ! 6)"

definition get_middle_direction :: "hand_frame \<Rightarrow> landmark" where
  "get_middle_direction landmarks = finger_direction (landmarks ! 12) (landmarks ! 10)"

text \<open>\<open>_measure_pinch\<close>: thumb tip and index tip as the full three-component arrays.\<close>

definition measure_pinch :: "hand_frame \<Rightarrow> real" where
  "measure_pinch landmarks =
     (let thumb_tip = landmarks ! 4; index_tip = landmarks ! 8
      in norm3 (sub3 thumb_tip index_tip))"

text \<open>
  \<open>_measure_finger_spread\<close>: \<open>np.mean\<close> of the distances between neighbouring tips
  of index, middle, ring and pinky.
\<close>

fun adjacent_distances :: "landmark list \<Rightarrow> real list" where
  "adjacent_distances (p # q # ps) = norm3 (sub3 p q) # adjacent_distances (q # ps)"
| "adjacent_distances ps = []"

definition measure_finger_spread :: "hand_frame \<Rightarrow> real" where
  "measure_finger_spread landmarks =
     (let tip_positions = map (\<lambda>i. landmarks ! i) [8, 12, 16, 20];
          distances = adjacent_distances tip_positions
      in if distances \<noteq> [] then sum_list distances / real (length distances) else 0)"

text \<open>\<open>_is_three_finger_control\<close>.\<close>

definition is_three_finger_control :: "hand_frame \<Rightarrow> bool" where
  "is_three_finger_control landmarks =
     (let index_extended = lm_y (landmarks ! 8) < lm_y (landmarks ! 5);
          middle_extended = lm_y (landmarks ! 12) < lm_y (landmarks ! 9);
          ring_extended = lm_y (landmarks ! 16) < lm_y (landmarks ! 13);
          pinky_closed = \<not> (lm_y (landmarks ! 20) < lm_y (landmarks ! 17))
      in index_extended \<and> middle_extended \<and> ring_extended \<and> pinky_closed)"

text \<open>The records stored in the result of \<open>detect_precise_gestures\<close>, one shape per key.\<close>

datatype gesture_entry =
    PointEntry (confidence: real) (position: landmark) (direction: landmark)
  | PinchEntry (confidence: real) (position: landmark) (strength: real)
  | SpreadEntry (confidence: real) (scale_factor: real)
  | ToolEntry (confidence: real) (tool: string)

text \<open>
  \<open>detect_precise_gestures\<close>. Empty data gives the empty dictionary. Otherwise the first
  detector reads the landmarks up to index 20, so a shorter frame raises.
\<close>

definition detect_precise_gestures ::
  "tracker_output option \<Rightarrow> error + (string \<rightharpoonup> gesture_entry)" where
  "detect_precise_gestures data =
     (case data of
        None \<Rightarrow> Inr Map.empty
      | Some d \<Rightarrow>
          let landmarks = out_landmarks d; velocities = out_velocities d
          in if length landmarks \<le> 20 then Inl IndexError
             else
               let g0 = Map.empty;
                   g1 = (if is_index_precision_pointing landmarks velocities
                         then g0(''precision_point'' \<mapsto>
                                PointEntry 0.9 (landmarks ! 8) (get_pointing_direction landmarks))
                         else g0);
                   pinch_degree = measure_pinch landmarks;
                   g2 = (if pinch_degree < 0.05
                         then g1(''pinch'' \<mapsto>
                                PinchEntry 0.9
                                  (let s = landmarks ! 4; t = landmarks ! 8
                                   in ((lm_x s + lm_x t) / 2, (lm_y s + lm_y t) / 2,
                                       (lm_z s + lm_z t) / 2))
                                  (1.0 - pinch_degree * 20))
                         else g1);
                   spread = measure_finger_spread landmarks;
                   g3 = g2(''spread_scale'' \<mapsto>
                           SpreadEntry (if spread > 0.3 then 0.7 else 0.0) (spread * 3));
                   g4 = (if is_three_finger_control landmarks
                         then g3(''three_finger_control'' \<mapsto>
                                PointEntry 0.8 (landmarks ! 12) (get_middle_direction landmarks))
                         else g3)
               in (case detect_tool_selection_gesture landmarks of
                     Inl e \<Rightarrow> Inl e
                   | Inr None \<Rightarrow> Inr g4
                   | Inr (Some t) \<Rightarrow> Inr (g4(''tool_selection'' \<mapsto> ToolEntry (snd t) (fst t)))))"

text \<open>
  One frame of the camera loop in CAD mode: a frame with a hand goes through \<open>update\<close>
  and \<open>detect_precise_gestures\<close>, a frame without one touches nothing. A run of such
  frames stops at the first one that raises.
\<close>

definition cad_frame ::
  "('f \<Rightarrow> landmark \<Rightarrow> 'f) \<Rightarrow> ('f \<Rightarrow> landmark) \<Rightarrow> hand_frame option \<Rightarrow> 'f tracker \<Rightarrow>
     error + (tracker_output option \<times> (string \<rightharpoonup> gesture_entry)) \<times> 'f tracker" where
  "cad_frame kf_step kf_pos seen tr =
     (case seen of
        None \<Rightarrow> Inr ((None, Map.empty), tr)
      | Some landmarks \<Rightarrow>
          (case update kf_step kf_pos (Some landmarks) tr of
             Inl e \<Rightarrow> Inl e
           | Inr (data, tr1) \<Rightarrow>
               (case detect_precise_gestures data of
                  Inl e \<Rightarrow> Inl e
                | Inr gestures \<Rightarrow> Inr ((data, gestures), tr1))))"

fun cad_run ::
  "('f \<Rightarrow> landmark \<Rightarrow> 'f) \<Rightarrow> ('f \<Rightarrow> landmark) \<Rightarrow> hand_frame option list \<Rightarrow> 'f tracker \<Rightarrow>
     error + (tracker_output option \<times> (string \<rightharpoonup> gesture_entry)) list \<times> 'f tracker" where
  "cad_run kf_step kf_pos [] tr = Inr ([], tr)"
| "cad_run kf_step kf_pos (seen # rest) tr =
     (case cad_frame kf_step kf_pos seen tr of
        Inl e \<Rightarrow> Inl e
      | Inr (r, tr1) \<Rightarrow>
          (case cad_run kf_step kf_pos rest tr1 of
             Inl e \<Rightarrow> Inl e
           | Inr (rs, tr2) \<Rightarrow> Inr (r # rs, tr2)))"

text \<open>
  For each frame of a run, whether the velocity map handed to the detector has an entry
  for the index tip.
\<close>

definition index_velocity_present ::
  "error + (tracker_output option \<times> (string \<rightharpoonup> gesture_entry)) list \<times> 'f tracker \<Rightarrow>
     error + bool list" where
  "index_velocity_present r =
     (case r of
        Inl e \<Rightarrow> Inl e
      | Inr (rs, tr) \<Rightarrow>
          Inr (map (\<lambda>x. case fst x of None \<Rightarrow> False | Some d \<Rightarrow> out_velocities d 8 \<noteq> None)
                 rs))"

text \<open>
  A stand-in for the library filter that answers with the last measurement, and the
  filters of a new tracker under it.
\<close>

definition last_seen_step :: "landmark \<Rightarrow> landmark \<Rightarrow> landmark" where
  "last_seen_step f z = z"

definition last_seen_pos :: "landmark \<Rightarrow> landmark" where
  "last_seen_pos f = f"

definition origin_filters :: "nat \<Rightarrow> landmark" where
  "origin_filters i = (0, 0, 0)"

text \<open>
  Index raised, the other fingers and the thumb folded; and a tracker that has stored
  this frame as its previous one.
\<close>

definition point_frame :: hand_frame where
  "point_frame = pose_frame thumb_in index_up 0.7 0.7 0.7"

definition tracking_example :: "landmark tracker" where
  "tracking_example = (tracker_init origin_filters)\<lparr>prev_landmarks := Some point_frame\<rparr>"

text \<open>
  The open palm with the four finger tips 0.32 apart, as of a hand held close to the
  camera.
\<close>

definition spread_frame :: hand_frame where
  "spread_frame =
     open_palm_frame[8 := (0.02, 0.3, 0), 12 := (0.34, 0.3, 0), 16 := (0.66, 0.3, 0),
                     20 := (0.98, 0.3, 0)]"

text \<open>Tracker output that carries a frame and nothing else.\<close>

definition output_of :: "hand_frame \<Rightarrow> tracker_output" where
  "output_of landmarks =
     \<lparr>out_landmarks = landmarks, out_velocities = Map.empty, out_stable_palm = (0, 0, 0)\<rparr>"

text \<open>A classifier whose history is full: ten fists, ten seconds apart.\<close>

definition full_gesture_system :: gesture_system where
  "full_gesture_system =
     \<lparr>gesture_confidence = [],
      gesture_history =
        [(''fist'', 10), (''fist'', 20), (''fist'', 30), (''fist'', 40), (''fist'', 50),
         (''fist'', 60), (''fist'', 70), (''fist'', 80), (''fist'', 90), (''fist'', 100)],
      max_history = 10, last_gesture_time = 100, gesture_cooldown = 1\<rparr>"

section \<open>Mode toggle: properties\<close>

lemma check_for_mode_toggle_step:
  assumes "20 < length landmarks"
  shows "check_for_mode_toggle landmarks dt st =
           Inr (mode_toggle_step
                  (thumb_aligned (landmarks ! 0) (landmarks ! 2) (landmarks ! 4)
                   \<and> lm_y (landmarks ! 8) < lm_y (landmarks ! 5)
                   \<and> lm_y (landmarks ! 12) < lm_y (landmarks ! 9)
                   \<and> lm_y (landmarks ! 16) < lm_y (landmarks ! 13)
                   \<and> lm_y (landmarks ! 20) < lm_y (landmarks ! 17)) dt st)"
  using assms
  by (simp add: check_for_mode_toggle_def all_fingers_extended_def is_thumb_extended_def
      Let_def)

lemma toggle_cad_mode_timer [simp]:
  "mode_toggle_cooldown (toggle_cad_mode st) = mode_toggle_cooldown st"
  "mode_toggle_cooldown_time (toggle_cad_mode st) = mode_toggle_cooldown_time st"
  by (simp_all add: toggle_cad_mode_def Let_def)

lemma step_time [simp]:
  "mode_toggle_cooldown_time (snd (mode_toggle_step p dt st)) = mode_toggle_cooldown_time st"
  by (simp add: mode_toggle_step_def Let_def)

lemma run_toggle_append:
  "run_toggle st (xs @ ys) =
     (fst (run_toggle st xs) + fst (run_toggle (snd (run_toggle st xs)) ys),
      snd (run_toggle (snd (run_toggle st xs)) ys))"
  by (induction xs arbitrary: st) (auto simp: Let_def split: prod.splits)

lemma run_toggle_time [simp]:
  "mode_toggle_cooldown_time (snd (run_toggle st fs)) = mode_toggle_cooldown_time st"
proof (induction fs arbitrary: st)
  case Nil
  show ?case by simp
next
  case (Cons f fs)
  obtain p dt where f: "f = (p, dt)" by (cases f)
  obtain b st1 where s: "mode_toggle_step p dt st = (b, st1)" by (cases "mode_toggle_step p dt st")
  have "mode_toggle_cooldown_time st1 = mode_toggle_cooldown_time st"
    using step_time [of p dt st] s by simp
  with Cons.IH [of st1] show ?case
    by (cases "run_toggle st1 fs") (simp add: f s)
qed

lemma cooling_held_run:
  "mode_toggle_cooldown st < 0 \<Longrightarrow> \<forall>f\<in>set fs. fst f \<Longrightarrow> run_toggle st fs = (0, st)"
  by (induction fs) (auto simp: mode_toggle_step_def)

lemma arming_held_run:
  assumes "0 < mode_toggle_cooldown st" "0 < mode_toggle_cooldown_time st"
    and "\<forall>f\<in>set fs. fst f \<and> 0 \<le> snd f"
  shows "fst (run_toggle st fs) = (if mode_toggle_cooldown st \<le> sum_list (map snd fs) then 1 else 0)
       \<and> mode_toggle_cooldown (snd (run_toggle st fs)) =
           (if mode_toggle_cooldown st \<le> sum_list (map snd fs) then - mode_toggle_cooldown_time st
            else mode_toggle_cooldown st - sum_list (map snd fs))"
  using assms
proof (induction fs arbitrary: st)
  case Nil
  then show ?case by simp
next
  case (Cons f fs)
  obtain dt where f: "f = (True, dt)" and dt: "0 \<le> dt"
    using Cons.prems(3) by (cases f) auto
  have held: "\<forall>g\<in>set fs. fst g" and nonneg: "\<forall>g\<in>set fs. 0 \<le> snd g"
    using Cons.prems(3) by auto
  have sum_nonneg: "0 \<le> sum_list (map snd fs)"
    using nonneg by (intro sum_list_nonneg) auto
  show ?case
  proof (cases "mode_toggle_cooldown st - dt \<le> 0")
    case True
    define st1 where "st1 = (toggle_cad_mode (st\<lparr>mode_toggle_cooldown := mode_toggle_cooldown st - dt\<rparr>))
                       \<lparr>mode_toggle_cooldown := - mode_toggle_cooldown_time st\<rparr>"
    have step: "mode_toggle_step True dt st = (True, st1)"
      using True Cons.prems(1) by (simp add: mode_toggle_step_def Let_def st1_def)
    have cool: "mode_toggle_cooldown st1 < 0"
      using Cons.prems(2) by (simp add: st1_def)
    have rest: "run_toggle st1 fs = (0, st1)"
      using cooling_held_run [OF cool held] .
    have "mode_toggle_cooldown st \<le> dt + sum_list (map snd fs)"
      using True sum_nonneg by linarith
    then show ?thesis
      using step rest by (simp add: f st1_def)
  next
    case False
    define st1 where "st1 = st\<lparr>mode_toggle_cooldown := mode_toggle_cooldown st - dt\<rparr>"
    have step: "mode_toggle_step True dt st = (False, st1)"
      using False Cons.prems(1) by (simp add: mode_toggle_step_def Let_def st1_def)
    have pos: "0 < mode_toggle_cooldown st1" "0 < mode_toggle_cooldown_time st1"
      using False Cons.prems(2) by (simp_all add: st1_def)
    have all: "\<forall>g\<in>set fs. fst g \<and> 0 \<le> snd g"
      using held nonneg by blast
    note IH = Cons.IH [OF pos all]
    have eq: "(mode_toggle_cooldown st1 \<le> sum_list (map snd fs))
              = (mode_toggle_cooldown st \<le> dt + sum_list (map snd fs))"
      by (auto simp: st1_def)
    show ?thesis
      using IH step eq by (simp add: f split: prod.splits) (simp add: st1_def)
  qed
qed

lemma cooling_window_run:
  assumes "mode_toggle_cooldown st + sum_list (map snd fs) < 0"
    and "\<forall>f\<in>set fs. 0 \<le> snd f"
  shows "fst (run_toggle st fs) = 0 \<and> mode_toggle_cooldown (snd (run_toggle st fs)) < 0"
  using assms
proof (induction fs arbitrary: st)
  case Nil
  then show ?case by simp
next
  case (Cons f fs)
  obtain p dt where f: "f = (p, dt)" by (cases f)
  have dt: "0 \<le> dt" and nonneg: "\<forall>g\<in>set fs. 0 \<le> snd g"
    using Cons.prems(2) by (auto simp: f)
  have sum_nonneg: "0 \<le> sum_list (map snd fs)"
    using nonneg by (intro sum_list_nonneg) auto
  have neg: "mode_toggle_cooldown st < 0"
    using Cons.prems(1) dt sum_nonneg by (simp add: f)
  obtain st1 where step: "mode_toggle_step p dt st = (False, st1)"
    and le: "mode_toggle_cooldown st1 \<le> mode_toggle_cooldown st + dt"
    using neg dt by (cases p) (auto simp: mode_toggle_step_def)
  have "mode_toggle_cooldown st1 + sum_list (map snd fs) < 0"
    using le Cons.prems(1) by (simp add: f)
  from Cons.IH [OF this nonneg] show ?case
    using step by (simp add: f split: prod.splits)
qed


text \<open>
  Claim C1, as the code has it. In \<open>Cooling\<close> (timer below zero) a frame in which the
  pose does not hold moves the timer to \<open>min 0 (t + dt)\<close> and fires nothing; a frame in
  which the pose holds leaves the whole state as it is. The machine is \<open>Idle\<close> again
  exactly when the released frames have brought the timer to zero.
\<close>

theorem C1_cooling_counts_up_only_when_released:
  assumes "mode_toggle_cooldown st < 0"
  shows "mode_toggle_step False dt st =
           (False, st\<lparr>mode_toggle_cooldown := min 0 (mode_toggle_cooldown st + dt)\<rparr>)
       \<and> mode_toggle_step True dt st = (False, st)
       \<and> phase_of (snd (mode_toggle_step False dt st)) =
           (if 0 \<le> mode_toggle_cooldown st + dt then Idle else Cooling)"
  using assms by (simp add: mode_toggle_step_def phase_of_def min_def)


theorem C1_cooling_witness:
  "mode_toggle_cooldown cooling_example < 0
   \<and> mode_toggle_step False (1/2) cooling_example =
        (False, cooling_example\<lparr>mode_toggle_cooldown := - (1/2)\<rparr>)
   \<and> mode_toggle_step True (1/2) cooling_example = (False, cooling_example)
   \<and> phase_of (snd (mode_toggle_step False (1/2) cooling_example)) = Cooling"
  using C1_cooling_counts_up_only_when_released [of cooling_example "1/2"]
  by (simp add: cooling_example_def phase_of_def)

text \<open>
  Claim C1 as stated fails while the pose holds: with the timer at \<open>-1\<close> and
  \<open>dt = 1/2\<close> the timer stays at \<open>-1\<close>, where \<open>min 0 (t + dt)\<close> is \<open>-1/2\<close>.
\<close>

theorem C1_cooling_held_counterexample:
  "mode_toggle_cooldown (snd (mode_toggle_step True (1/2) cooling_example))
     \<noteq> min 0 (mode_toggle_cooldown cooling_example + 1/2)"
  by (simp add: mode_toggle_step_def cooling_example_def)


text \<open>
  Claim C6. The machine starts \<open>Idle\<close> with a positive hold time. The first frame with
  the pose arms the timer; the hold is then measured by the frame times of the following
  frames with the pose. If they add up to less than the hold time and the pose is then
  released, no toggle fires and the machine is \<open>Idle\<close> again. If they reach the hold
  time, exactly one toggle fires, however long the pose is held on. After that, any
  further frames (pose held or not) whose frame times add up to less than the hold time
  fire nothing more.
\<close>

theorem C6_mode_toggle_debounce:
  assumes idle: "mode_toggle_cooldown st = 0"
    and hold: "0 < mode_toggle_cooldown_time st"
    and short: "\<forall>f\<in>set fs1. fst f \<and> 0 \<le> snd f"
               "sum_list (map snd fs1) < mode_toggle_cooldown_time st"
    and long: "\<forall>f\<in>set fs2. fst f \<and> 0 \<le> snd f"
              "mode_toggle_cooldown_time st \<le> sum_list (map snd fs2)"
    and cool: "\<forall>g\<in>set gs. 0 \<le> snd g"
              "sum_list (map snd gs) < mode_toggle_cooldown_time st"
  shows "fst (run_toggle st ((True, d0) # fs1 @ [(False, dr)])) = 0
       \<and> phase_of (snd (run_toggle st ((True, d0) # fs1 @ [(False, dr)]))) = Idle
       \<and> fst (run_toggle st ((True, d0) # fs2)) = 1
       \<and> fst (run_toggle st ((True, d0) # fs2 @ gs)) = 1"
proof -
  define st1 where "st1 = st\<lparr>mode_toggle_cooldown := mode_toggle_cooldown_time st,
                              action_text := ''HOLD TO SWITCH MODES...''\<rparr>"
  have first: "mode_toggle_step True d0 st = (False, st1)"
    using idle by (simp add: mode_toggle_step_def st1_def)
  have armed: "0 < mode_toggle_cooldown st1" "0 < mode_toggle_cooldown_time st1"
    and t1: "mode_toggle_cooldown st1 = mode_toggle_cooldown_time st"
            "mode_toggle_cooldown_time st1 = mode_toggle_cooldown_time st"
    using hold by (simp_all add: st1_def)
  note A1 = arming_held_run [OF armed short(1)]
  note A2 = arming_held_run [OF armed long(1)]
  have n1: "fst (run_toggle st1 fs1) = 0"
    and c1: "0 < mode_toggle_cooldown (snd (run_toggle st1 fs1))"
    using A1 short(2) by (simp_all add: t1)
  have rel: "mode_toggle_step False dr (snd (run_toggle st1 fs1))
               = (False, (snd (run_toggle st1 fs1))\<lparr>mode_toggle_cooldown := 0\<rparr>)"
    using c1 by (simp add: mode_toggle_step_def)
  have n2: "fst (run_toggle st1 fs2) = 1"
    and c2: "mode_toggle_cooldown (snd (run_toggle st1 fs2)) = - mode_toggle_cooldown_time st"
    using A2 long(2) by (simp_all add: t1)
  have "mode_toggle_cooldown (snd (run_toggle st1 fs2)) + sum_list (map snd gs) < 0"
    using c2 cool(2) by simp
  from cooling_window_run [OF this cool(1)]
  have n3: "fst (run_toggle (snd (run_toggle st1 fs2)) gs) = 0" by simp
  show ?thesis
    using first n1 rel n2 n3 by (simp add: run_toggle_append phase_of_def)
qed

theorem C6_mode_toggle_debounce_witness:
  "mode_toggle_cooldown idle_example = 0
   \<and> 0 < mode_toggle_cooldown_time idle_example
   \<and> list_all (\<lambda>f. fst f \<and> (0::real) \<le> snd f) [(True, 1/2), (True, 2/5)]
   \<and> sum_list (map snd [(True, 1/2), (True, 2/5::real)]) < mode_toggle_cooldown_time idle_example
   \<and> list_all (\<lambda>f. fst f \<and> (0::real) \<le> snd f) [(True, 1/2), (True, 3/5), (True, 1/2)]
   \<and> mode_toggle_cooldown_time idle_example
        \<le> sum_list (map snd [(True, 1/2), (True, 3/5), (True, 1/2::real)])
   \<and> list_all (\<lambda>g. (0::real) \<le> snd g) [(True, 3/10), (False, 3/10), (True, 3/10)]
   \<and> sum_list (map snd [(True, 3/10), (False, 3/10), (True, 3/10::real)])
        < mode_toggle_cooldown_time idle_example
   \<and> fst (run_toggle idle_example
             ((True, 1/30) # [(True, 1/2), (True, 2/5)] @ [(False, 1/30)])) = 0
   \<and> fst (run_toggle idle_example ((True, 1/30) # [(True, 1/2), (True, 3/5), (True, 1/2)])) = 1
   \<and> fst (run_toggle idle_example
             ((True, 1/30) # [(True, 1/2), (True, 3/5), (True, 1/2)]
                @ [(True, 3/10), (False, 3/10), (True, 3/10)])) = 1"
  using C6_mode_toggle_debounce [of idle_example "[(True, 1/2), (True, 2/5)]"
          "[(True, 1/2), (True, 3/5), (True, 1/2)]"
          "[(True, 3/10), (False, 3/10), (True, 3/10)]" "1/30" "1/30"]
  by (simp add: idle_example_def)


section \<open>Action dispatcher: properties\<close>

text \<open>
  Claim C5. With the cooldown at 0.8 s: a gesture other than the open palm that arrives
  less than 0.8 s after the last action sets off nothing and leaves the controller as it
  was; the open palm is always served and keeps \<open>last_action_time\<close>; a fist served at
  \<open>t2\<close> followed by a fist 0.5 s later gives one action, followed by a fist 1.0 s later
  gives two.
\<close>

theorem C5_action_cooldown:
  assumes "action_cooldown st = 4/5"
    and "g \<noteq> ''open_palm''"
    and "t1 - last_action_time st < 4/5"
    and "4/5 \<le> t2 - last_action_time st"
  shows "execute_gesture_action g t1 st = (None, st)
       \<and> fst (execute_gesture_action ''open_palm'' t st) = Some CameraControl
       \<and> last_action_time (snd (execute_gesture_action ''open_palm'' t st)) = last_action_time st
       \<and> fst (run_actions st [(''fist'', t2), (''fist'', t2 + 1/2)]) = [SpawnDrone]
       \<and> fst (run_actions st [(''fist'', t2), (''fist'', t2 + 1)]) = [SpawnDrone, SpawnDrone]"
  using assms by (simp add: execute_gesture_action_def)

theorem C5_action_cooldown_witness:
  "action_cooldown controller_init = 4/5
   \<and> ''peace'' \<noteq> ''open_palm''
   \<and> 1/2 - last_action_time controller_init < 4/5
   \<and> 4/5 \<le> 100 - last_action_time controller_init
   \<and> execute_gesture_action ''peace'' (1/2) controller_init = (None, controller_init)
   \<and> fst (execute_gesture_action ''open_palm'' (1/2) controller_init) = Some CameraControl
   \<and> last_action_time (snd (execute_gesture_action ''open_palm'' (1/2) controller_init)) = 0
   \<and> fst (run_actions controller_init [(''fist'', 100), (''fist'', 100 + 1/2)]) = [SpawnDrone]
   \<and> fst (run_actions controller_init [(''fist'', 100), (''fist'', 100 + 1)])
        = [SpawnDrone, SpawnDrone]"
  using C5_action_cooldown [of controller_init "''peace''" "1/2" 100 "1/2"]
  by (simp add: controller_init_def)

text \<open>
  Claim C9. Any gesture \<open>g\<close> other than the open palm that passes the cooldown check
  sets \<open>last_action_time\<close> to the time of the call; so does a gesture \<open>u\<close> that is
  none of the six known ones (such as \<open>unknown\<close> or \<open>none\<close>), which sets off no action.
  So a fist that arrives 0.5 s after such a gesture is turned away, where the same fist
  without the gesture before it would have been served.
\<close>

theorem C9_unrecognised_gesture_resets_cooldown:
  assumes "action_cooldown st = 4/5"
    and "g \<noteq> ''open_palm''"
    and "u \<notin> {''fist'', ''peace'', ''pinch'', ''thumbs_up'', ''rock_sign'', ''open_palm''}"
    and "4/5 \<le> now - last_action_time st"
  shows "last_action_time (snd (execute_gesture_action g now st)) = now
       \<and> fst (execute_gesture_action u now st) = None
       \<and> last_action_time (snd (execute_gesture_action u now st)) = now
       \<and> fst (run_actions st [(u, now), (''fist'', now + 1/2)]) = []
       \<and> fst (run_actions st [(''fist'', now + 1/2)]) = [SpawnDrone]"
  using assms by (simp add: execute_gesture_action_def)

theorem C9_unrecognised_gesture_witness:
  "action_cooldown controller_init = 4/5
   \<and> ''peace'' \<noteq> ''open_palm''
   \<and> ''unknown'' \<notin> {''fist'', ''peace'', ''pinch'', ''thumbs_up'', ''rock_sign'', ''open_palm''}
   \<and> 4/5 \<le> 100 - last_action_time controller_init
   \<and> last_action_time (snd (execute_gesture_action ''peace'' 100 controller_init)) = 100
   \<and> fst (execute_gesture_action ''unknown'' 100 controller_init) = None
   \<and> last_action_time (snd (execute_gesture_action ''unknown'' 100 controller_init)) = 100
   \<and> fst (run_actions controller_init [(''unknown'', 100), (''fist'', 100 + 1/2)]) = []
   \<and> fst (run_actions controller_init [(''fist'', 100 + 1/2)]) = [SpawnDrone]"
  using C9_unrecognised_gesture_resets_cooldown
          [of controller_init "''peace''" "''unknown''" 100]
  by (simp add: controller_init_def)


section \<open>Coarse gesture classifier: properties\<close>

lemma score_gestures_names:
  "map fst (score_gestures states d) =
     [''fist'', ''thumbs_up'', ''peace'', ''open_palm'', ''pinch'', ''rock_sign'']"
  by (simp add: score_gestures_def Let_def)

lemma max_by_value_mem: "max_by_value b xs \<in> set (b # xs)"
  by (induction xs arbitrary: b) auto

lemma best_gesture_name:
  "fst (max_by_value (hd (score_gestures states d)) (tl (score_gestures states d)))
     \<in> {''fist'', ''thumbs_up'', ''peace'', ''open_palm'', ''pinch'', ''rock_sign''}"
proof -
  let ?c = "score_gestures states d"
  have ne: "?c \<noteq> []" by (simp add: score_gestures_def Let_def)
  have "max_by_value (hd ?c) (tl ?c) \<in> set (hd ?c # tl ?c)" by (rule max_by_value_mem)
  then have "max_by_value (hd ?c) (tl ?c) \<in> set ?c" using ne by simp
  then have "fst (max_by_value (hd ?c) (tl ?c)) \<in> set (map fst ?c)" by force
  then show ?thesis by (simp add: score_gestures_names)
qed

lemma detect_gesture_known:
  assumes "detect_gesture landmarks now gs = Inr (g, gs1)"
  shows "g \<in> {''none'', ''unknown'', ''fist'', ''thumbs_up'', ''peace'', ''open_palm'',
               ''pinch'', ''rock_sign''}"
  using assms best_gesture_name [of "finger_states landmarks" "coarse_pinch_distance landmarks"]
  by (auto simp: detect_gesture_def Let_def split: if_splits)

lemma detect_gesture_history:
  assumes "detect_gesture landmarks now gs = Inr (g, gs1)"
  shows "gesture_history gs1 =
           (if g \<noteq> ''none'' \<and> g \<noteq> ''unknown''
               \<and> now - last_gesture_time gs > gesture_cooldown gs
            then (if length (gesture_history gs) < max_history gs
                  then gesture_history gs @ [(g, now)]
                  else tl (gesture_history gs @ [(g, now)]))
            else gesture_history gs)"
    and "max_history gs1 = max_history gs" and "gesture_cooldown gs1 = gesture_cooldown gs"
    and "last_gesture_time gs1 =
           (if g \<noteq> ''none'' \<and> g \<noteq> ''unknown''
               \<and> now - last_gesture_time gs > gesture_cooldown gs
            then now else last_gesture_time gs)"
  using assms best_gesture_name [of "finger_states landmarks" "coarse_pinch_distance landmarks"]
  by (auto simp: detect_gesture_def Let_def split: if_splits)

lemma detect_gesture_fresh:
  assumes "detect_gesture landmarks now gs = Inr (g, gs1)"
  shows "\<exists>gs3. detect_gesture landmarks now2 gs2 = Inr (g, gs3)"
  using assms by (auto simp: detect_gesture_def Let_def split: if_splits)


subsection \<open>Evaluating the geometry without square roots\<close>

lemma sqrt_less_iff_square: "0 < c \<Longrightarrow> (sqrt a < c) = (a < c\<^sup>2)"
  by (metis real_sqrt_less_iff real_sqrt_abs abs_of_pos)

lemma thumb_aligned_iff:
  "thumb_aligned w m t =
     (let a1 = lm_x m - lm_x w; a2 = lm_y m - lm_y w;
          b1 = lm_x t - lm_x m; b2 = lm_y t - lm_y m
      in 0 < a1\<^sup>2 + a2\<^sup>2 \<and> 0 < b1\<^sup>2 + b2\<^sup>2 \<and> 0 < a1 * b1 + a2 * b2
         \<and> 49 * ((a1\<^sup>2 + a2\<^sup>2) * (b1\<^sup>2 + b2\<^sup>2)) < 100 * (a1 * b1 + a2 * b2)\<^sup>2)"
proof -
  define a1 where "a1 = lm_x m - lm_x w"
  define a2 where "a2 = lm_y m - lm_y w"
  define b1 where "b1 = lm_x t - lm_x m"
  define b2 where "b2 = lm_y t - lm_y m"
  define A where "A = a1\<^sup>2 + a2\<^sup>2"
  define B where "B = b1\<^sup>2 + b2\<^sup>2"
  define x where "x = a1 * b1 + a2 * b2"
  have unfold: "thumb_aligned w m t =
      (if 0 < sqrt A \<and> 0 < sqrt B
       then 0.7 < a1 / sqrt A * (b1 / sqrt B) + a2 / sqrt A * (b2 / sqrt B) else False)"
    unfolding thumb_aligned_def Let_def norm2_def dot2_def div2_def fst_conv snd_conv
      a1_def a2_def b1_def b2_def A_def B_def ..
  have core: "(7/10 < a1 / sqrt A * (b1 / sqrt B) + a2 / sqrt A * (b2 / sqrt B))
              = (0 < x \<and> 49 * (A * B) < 100 * x\<^sup>2)" if "0 < A" "0 < B"
  proof -
    define n where "n = sqrt A * sqrt B"
    have n: "0 < n" using that by (simp add: n_def)
    have n2: "n\<^sup>2 = A * B" using that by (simp add: n_def power_mult_distrib)
    have "a1 / sqrt A * (b1 / sqrt B) + a2 / sqrt A * (b2 / sqrt B) = x / n"
      by (simp add: x_def n_def add_divide_distrib)
    also have "(7/10 < x / n) = (7/10 * n < x)"
      using n by (simp add: pos_less_divide_eq)
    also have "\<dots> = (0 < x \<and> (7/10 * n)\<^sup>2 < x\<^sup>2)"
    proof
      assume h: "7/10 * n < x"
      have "0 \<le> 7/10 * n" using n by simp
      then show "0 < x \<and> (7/10 * n)\<^sup>2 < x\<^sup>2"
        using h n by (auto intro: power_strict_mono)
    next
      assume h: "0 < x \<and> (7/10 * n)\<^sup>2 < x\<^sup>2"
      then show "7/10 * n < x"
        using power2_less_imp_less [of "7/10 * n" x] by simp
    qed
    also have "(7/10 * n)\<^sup>2 = 49/100 * (A * B)"
      unfolding power_mult_distrib n2 by (simp add: power2_eq_square)
    also have "(0 < x \<and> 49/100 * (A * B) < x\<^sup>2) = (0 < x \<and> 49 * (A * B) < 100 * x\<^sup>2)"
      by auto
    finally show ?thesis .
  qed
  have "thumb_aligned w m t = (0 < A \<and> 0 < B \<and> 0 < x \<and> 49 * (A * B) < 100 * x\<^sup>2)"
  proof (cases "0 < A \<and> 0 < B")
    case True
    then show ?thesis using core unfold by simp
  next
    case False
    then show ?thesis using unfold by auto
  qed
  then show ?thesis
    by (simp add: Let_def a1_def a2_def b1_def b2_def A_def B_def x_def)
qed

lemma coarse_pinch_less_iff:
  "(coarse_pinch_distance landmarks < 0.05) =
     ((lm_x (landmarks ! 4) - lm_x (landmarks ! 8))\<^sup>2
        + (lm_y (landmarks ! 4) - lm_y (landmarks ! 8))\<^sup>2 < 0.0025)"
proof -
  define S where "S = (lm_x (landmarks ! 4) - lm_x (landmarks ! 8))\<^sup>2
                    + (lm_y (landmarks ! 4) - lm_y (landmarks ! 8))\<^sup>2"
  have d: "coarse_pinch_distance landmarks = sqrt S"
    unfolding coarse_pinch_distance_def Let_def fst_conv snd_conv S_def ..
  have "(sqrt S < 0.05) = (S < (0.05)\<^sup>2)"
    by (rule sqrt_less_iff_square) simp
  also have "(0.05::real)\<^sup>2 = 0.0025"
    by (simp add: power2_eq_square)
  finally show ?thesis
    unfolding d S_def .
qed


subsection \<open>The rules against the table\<close>

lemma score_gestures_spec:
  assumes "finger_states landmarks = s" "coarse_pinch_distance landmarks = d"
  shows "score_gestures s d =
           map (\<lambda>h. (h, if spec_predicate h landmarks then spec_confidence h else 0))
             gesture_names"
  using assms
  by (simp add: score_gestures_def spec_predicate_def spec_confidence_def gesture_names_def
      Let_def)

lemma thumbs_up_implies_fist:
  "spec_predicate ''thumbs_up'' landmarks \<Longrightarrow> spec_predicate ''fist'' landmarks"
  by (simp add: spec_predicate_def finger_states_def sum_bool_def Let_def)

lemma thumbs_up_excludes:
  assumes "spec_predicate ''thumbs_up'' landmarks"
  shows "\<not> spec_predicate ''peace'' landmarks" "\<not> spec_predicate ''open_palm'' landmarks"
    "\<not> spec_predicate ''rock_sign'' landmarks"
  using assms by (simp_all add: spec_predicate_def finger_states_def sum_bool_def Let_def)

lemma detect_gesture_scored:
  assumes "20 < length landmarks"
  shows "detect_gesture landmarks now gs =
     (let c = map (\<lambda>h. (h, if spec_predicate h landmarks then spec_confidence h else 0))
                gesture_names;
          gs1 = gs\<lparr>gesture_confidence := c\<rparr>;
          best = max_by_value (hd c) (tl c)
      in if snd best > 0.5 then
           (if now - last_gesture_time gs > gesture_cooldown gs then
              Inr (fst best, gs1\<lparr>gesture_history :=
                      (if length (gesture_history gs) < max_history gs
                       then gesture_history gs @ [(fst best, now)]
                       else tl (gesture_history gs @ [(fst best, now)])),
                    last_gesture_time := now\<rparr>)
            else Inr (fst best, gs1))
         else Inr (''unknown'', gs1))"
proof -
  have ne: "landmarks \<noteq> []" using assms by auto
  have len: "\<not> length landmarks \<le> 20" using assms by simp
  show ?thesis
    unfolding detect_gesture_def
      score_gestures_spec [OF refl refl, of landmarks, symmetric]
    using ne len by (simp add: Let_def)
qed


lemma exclusive_scores:
  assumes "g \<in> set gesture_names" "spec_predicate g landmarks"
    and "\<forall>h\<in>set gesture_names. h \<noteq> g \<longrightarrow> \<not> spec_predicate h landmarks"
  shows "map (\<lambda>h. (h, if spec_predicate h landmarks then spec_confidence h else 0)) gesture_names
       = map (\<lambda>h. (h, if h = g then spec_confidence g else 0)) gesture_names"
  using assms by (intro map_cong) auto

lemma exclusive_best:
  assumes "g \<in> {''fist'', ''peace'', ''open_palm'', ''pinch'', ''rock_sign''}"
  shows "max_by_value (hd (map (\<lambda>h. (h, if h = g then spec_confidence g else 0)) gesture_names))
           (tl (map (\<lambda>h. (h, if h = g then spec_confidence g else 0)) gesture_names))
         = (g, spec_confidence g)"
    and "spec_confidence g > 0.5"
  using assms by (auto simp: gesture_names_def spec_confidence_def)

subsection \<open>The example frames under the rules\<close>

lemma example_frame_lengths:
  "length fist_frame = 21" "length thumbs_up_frame = 21" "length peace_frame = 21"
  "length open_palm_frame = 21" "length rock_sign_frame = 21" "length pinch_frame = 21"
  "length pinch_near_frame = 21" "length pinch_far_frame = 21" "length pinch_depth_frame = 21"
  "length phone_frame = 21"
  by (simp_all add: fist_frame_def thumbs_up_frame_def peace_frame_def open_palm_frame_def
      rock_sign_frame_def pinch_frame_def pinch_near_frame_def pinch_far_frame_def
      pinch_depth_frame_def phone_frame_def pose_frame_def)

lemma fist_frame_rules:
  "spec_predicate ''fist'' fist_frame"
  "\<not> spec_predicate ''thumbs_up'' fist_frame"
  "\<not> spec_predicate ''peace'' fist_frame"
  "\<not> spec_predicate ''open_palm'' fist_frame"
  "\<not> spec_predicate ''pinch'' fist_frame"
  "\<not> spec_predicate ''rock_sign'' fist_frame"
  unfolding spec_predicate_def Let_def coarse_pinch_less_iff
  by (simp_all add: finger_states_def fist_frame_def pose_frame_def thumb_aligned_iff
      thumb_in_def index_down_def lm_x_def lm_y_def sum_bool_def power2_eq_square)

lemma thumbs_up_frame_rules:
  "spec_predicate ''fist'' thumbs_up_frame"
  "spec_predicate ''thumbs_up'' thumbs_up_frame"
  "\<not> spec_predicate ''peace'' thumbs_up_frame"
  "\<not> spec_predicate ''open_palm'' thumbs_up_frame"
  "\<not> spec_predicate ''pinch'' thumbs_up_frame"
  "\<not> spec_predicate ''rock_sign'' thumbs_up_frame"
  unfolding spec_predicate_def Let_def coarse_pinch_less_iff
  by (simp_all add: finger_states_def thumbs_up_frame_def pose_frame_def thumb_aligned_iff
      thumb_out_def index_down_def lm_x_def lm_y_def sum_bool_def power2_eq_square)

lemma peace_frame_rules:
  "\<not> spec_predicate ''fist'' peace_frame"
  "\<not> spec_predicate ''thumbs_up'' peace_frame"
  "spec_predicate ''peace'' peace_frame"
  "\<not> spec_predicate ''open_palm'' peace_frame"
  "\<not> spec_predicate ''pinch'' peace_frame"
  "\<not> spec_predicate ''rock_sign'' peace_frame"
  unfolding spec_predicate_def Let_def coarse_pinch_less_iff
  by (simp_all add: finger_states_def peace_frame_def pose_frame_def thumb_aligned_iff
      thumb_in_def index_up_def lm_x_def lm_y_def sum_bool_def power2_eq_square)

lemma open_palm_frame_rules:
  "\<not> spec_predicate ''fist'' open_palm_frame"
  "\<not> spec_predicate ''thumbs_up'' open_palm_frame"
  "\<not> spec_predicate ''peace'' open_palm_frame"
  "spec_predicate ''open_palm'' open_palm_frame"
  "\<not> spec_predicate ''pinch'' open_palm_frame"
  "\<not> spec_predicate ''rock_sign'' open_palm_frame"
  unfolding spec_predicate_def Let_def coarse_pinch_less_iff
  by (simp_all add: finger_states_def open_palm_frame_def pose_frame_def thumb_aligned_iff
      thumb_out_def index_up_def lm_x_def lm_y_def sum_bool_def power2_eq_square)

lemma rock_sign_frame_rules:
  "\<not> spec_predicate ''fist'' rock_sign_frame"
  "\<not> spec_predicate ''thumbs_up'' rock_sign_frame"
  "\<not> spec_predicate ''peace'' rock_sign_frame"
  "\<not> spec_predicate ''open_palm'' rock_sign_frame"
  "\<not> spec_predicate ''pinch'' rock_sign_frame"
  "spec_predicate ''rock_sign'' rock_sign_frame"
  unfolding spec_predicate_def Let_def coarse_pinch_less_iff
  by (simp_all add: finger_states_def rock_sign_frame_def pose_frame_def thumb_aligned_iff
      thumb_in_def index_up_def lm_x_def lm_y_def sum_bool_def power2_eq_square)

lemma pinch_frame_rules:
  "\<not> spec_predicate ''fist'' pinch_frame"
  "\<not> spec_predicate ''thumbs_up'' pinch_frame"
  "\<not> spec_predicate ''peace'' pinch_frame"
  "\<not> spec_predicate ''open_palm'' pinch_frame"
  "spec_predicate ''pinch'' pinch_frame"
  "\<not> spec_predicate ''rock_sign'' pinch_frame"
  unfolding spec_predicate_def Let_def coarse_pinch_less_iff
  by (simp_all add: finger_states_def pinch_frame_def pose_frame_def thumb_aligned_iff
      thumb_out_def lm_x_def lm_y_def sum_bool_def power2_eq_square)

lemma pinch_near_frame_rules:
  "\<not> spec_predicate ''fist'' pinch_near_frame"
  "\<not> spec_predicate ''thumbs_up'' pinch_near_frame"
  "\<not> spec_predicate ''peace'' pinch_near_frame"
  "\<not> spec_predicate ''open_palm'' pinch_near_frame"
  "spec_predicate ''pinch'' pinch_near_frame"
  "\<not> spec_predicate ''rock_sign'' pinch_near_frame"
  unfolding spec_predicate_def Let_def coarse_pinch_less_iff
  by (simp_all add: finger_states_def pinch_near_frame_def pose_frame_def thumb_aligned_iff
      thumb_out_def lm_x_def lm_y_def sum_bool_def power2_eq_square)

lemma pinch_far_frame_rules:
  "\<not> spec_predicate ''fist'' pinch_far_frame"
  "\<not> spec_predicate ''thumbs_up'' pinch_far_frame"
  "\<not> spec_predicate ''peace'' pinch_far_frame"
  "\<not> spec_predicate ''open_palm'' pinch_far_frame"
  "\<not> spec_predicate ''pinch'' pinch_far_frame"
  "\<not> spec_predicate ''rock_sign'' pinch_far_frame"
  unfolding spec_predicate_def Let_def coarse_pinch_less_iff
  by (simp_all add: finger_states_def pinch_far_frame_def pose_frame_def thumb_aligned_iff
      thumb_out_def lm_x_def lm_y_def sum_bool_def power2_eq_square)

lemma pinch_depth_frame_rules:
  "\<not> spec_predicate ''fist'' pinch_depth_frame"
  "\<not> spec_predicate ''thumbs_up'' pinch_depth_frame"
  "\<not> spec_predicate ''peace'' pinch_depth_frame"
  "\<not> spec_predicate ''open_palm'' pinch_depth_frame"
  "spec_predicate ''pinch'' pinch_depth_frame"
  "\<not> spec_predicate ''rock_sign'' pinch_depth_frame"
  unfolding spec_predicate_def Let_def coarse_pinch_less_iff
  by (simp_all add: finger_states_def pinch_depth_frame_def pose_frame_def thumb_aligned_iff
      thumb_out_def lm_x_def lm_y_def sum_bool_def power2_eq_square)


subsection \<open>Claims on the coarse classifier\<close>

text \<open>
  Claim C2, as the code has it. For fist, peace, open palm, pinch and rock sign: a frame
  of 21 landmarks on which the gesture's predicate holds and no other gesture's does is
  classified as that gesture, with the gesture's confidence from the table and 0 for the
  other five. For thumbs up no such frame exists, since only the thumb extended is also
  at most one finger extended: a frame on which its predicate holds is classified as
  thumbs up with confidence 0.9, the fist scores 0.8, and peace, open palm and rock sign
  score 0.
\<close>

theorem C2_exclusive_gesture_wins:
  assumes "length landmarks = 21"
    and "g \<in> {''fist'', ''peace'', ''open_palm'', ''pinch'', ''rock_sign''}"
    and "spec_predicate g landmarks"
    and "\<forall>h\<in>set gesture_names. h \<noteq> g \<longrightarrow> \<not> spec_predicate h landmarks"
    and "length thumb_frame = 21"
    and "spec_predicate ''thumbs_up'' thumb_frame"
  shows "(\<exists>gs1. detect_gesture landmarks now gs = Inr (g, gs1)
            \<and> gesture_confidence gs1 =
                map (\<lambda>h. (h, if h = g then spec_confidence g else 0)) gesture_names)
       \<and> (\<exists>gs1. detect_gesture thumb_frame now gs = Inr (''thumbs_up'', gs1)
            \<and> gesture_confidence gs1 =
                [(''fist'', 0.8), (''thumbs_up'', 0.9), (''peace'', 0), (''open_palm'', 0),
                 (''pinch'', if coarse_pinch_distance thumb_frame < 0.05 then 0.8 else 0),
                 (''rock_sign'', 0)])
       \<and> spec_predicate ''fist'' thumb_frame"
proof -
  have mem: "g \<in> set gesture_names"
    using assms(2) by (auto simp: gesture_names_def)
  have len: "20 < length landmarks" "20 < length thumb_frame"
    using assms(1,5) by simp_all
  note sc = exclusive_scores [OF mem assms(3,4)]
  note best = exclusive_best [OF assms(2)]
  have first: "\<exists>gs1. detect_gesture landmarks now gs = Inr (g, gs1)
            \<and> gesture_confidence gs1 =
                map (\<lambda>h. (h, if h = g then spec_confidence g else 0)) gesture_names"
    unfolding detect_gesture_scored [OF len(1)] sc Let_def best(1)
    using best(2) by simp
  have fist: "spec_predicate ''fist'' thumb_frame"
    using assms(6) by (rule thumbs_up_implies_fist)
  note ex = thumbs_up_excludes [OF assms(6)]
  have pinch: "spec_predicate ''pinch'' thumb_frame = (coarse_pinch_distance thumb_frame < 0.05)"
    by (simp add: spec_predicate_def Let_def)
  have second: "\<exists>gs1. detect_gesture thumb_frame now gs = Inr (''thumbs_up'', gs1)
            \<and> gesture_confidence gs1 =
                [(''fist'', 0.8), (''thumbs_up'', 0.9), (''peace'', 0), (''open_palm'', 0),
                 (''pinch'', if coarse_pinch_distance thumb_frame < 0.05 then 0.8 else 0),
                 (''rock_sign'', 0)]"
    unfolding detect_gesture_scored [OF len(2)]
    using fist ex assms(6) pinch
    by (simp add: gesture_names_def spec_confidence_def Let_def)
  show ?thesis using first second fist by blast
qed

theorem C2_exclusive_gesture_witness:
  "(\<exists>gs1. detect_gesture fist_frame 100 gesture_system_init = Inr (''fist'', gs1)
      \<and> gesture_confidence gs1 =
          [(''fist'', 0.8), (''thumbs_up'', 0), (''peace'', 0), (''open_palm'', 0),
           (''pinch'', 0), (''rock_sign'', 0)])
   \<and> (\<exists>gs1. detect_gesture peace_frame 100 gesture_system_init = Inr (''peace'', gs1)
      \<and> gesture_confidence gs1 =
          [(''fist'', 0), (''thumbs_up'', 0), (''peace'', 0.9), (''open_palm'', 0),
           (''pinch'', 0), (''rock_sign'', 0)])
   \<and> (\<exists>gs1. detect_gesture open_palm_frame 100 gesture_system_init = Inr (''open_palm'', gs1)
      \<and> gesture_confidence gs1 =
          [(''fist'', 0), (''thumbs_up'', 0), (''peace'', 0), (''open_palm'', 0.9),
           (''pinch'', 0), (''rock_sign'', 0)])
   \<and> (\<exists>gs1. detect_gesture pinch_frame 100 gesture_system_init = Inr (''pinch'', gs1)
      \<and> gesture_confidence gs1 =
          [(''fist'', 0), (''thumbs_up'', 0), (''peace'', 0), (''open_palm'', 0),
           (''pinch'', 0.8), (''rock_sign'', 0)])
   \<and> (\<exists>gs1. detect_gesture rock_sign_frame 100 gesture_system_init = Inr (''rock_sign'', gs1)
      \<and> gesture_confidence gs1 =
          [(''fist'', 0), (''thumbs_up'', 0), (''peace'', 0), (''open_palm'', 0),
           (''pinch'', 0), (''rock_sign'', 0.8)])
   \<and> (\<exists>gs1. detect_gesture thumbs_up_frame 100 gesture_system_init = Inr (''thumbs_up'', gs1)
      \<and> gesture_confidence gs1 =
          [(''fist'', 0.8), (''thumbs_up'', 0.9), (''peace'', 0), (''open_palm'', 0),
           (''pinch'', 0), (''rock_sign'', 0)])"
proof -
  have pinch: "\<not> coarse_pinch_distance thumbs_up_frame < 0.05"
    using thumbs_up_frame_rules(5) by (simp add: spec_predicate_def Let_def)
  note T = example_frame_lengths(2) thumbs_up_frame_rules(2)
  have a: "\<exists>gs1. detect_gesture fist_frame 100 gesture_system_init = Inr (''fist'', gs1)
      \<and> gesture_confidence gs1 =
          map (\<lambda>h. (h, if h = ''fist'' then spec_confidence ''fist'' else 0)) gesture_names"
    using C2_exclusive_gesture_wins [OF example_frame_lengths(1) _ fist_frame_rules(1) _ T,
        of 100 gesture_system_init] fist_frame_rules
    by (simp add: gesture_names_def)
  have b: "\<exists>gs1. detect_gesture peace_frame 100 gesture_system_init = Inr (''peace'', gs1)
      \<and> gesture_confidence gs1 =
          map (\<lambda>h. (h, if h = ''peace'' then spec_confidence ''peace'' else 0)) gesture_names"
    using C2_exclusive_gesture_wins [OF example_frame_lengths(3) _ peace_frame_rules(3) _ T,
        of 100 gesture_system_init] peace_frame_rules
    by (simp add: gesture_names_def)
  have c: "\<exists>gs1. detect_gesture open_palm_frame 100 gesture_system_init = Inr (''open_palm'', gs1)
      \<and> gesture_confidence gs1 =
          map (\<lambda>h. (h, if h = ''open_palm'' then spec_confidence ''open_palm'' else 0))
            gesture_names"
    using C2_exclusive_gesture_wins [OF example_frame_lengths(4) _ open_palm_frame_rules(4) _ T,
        of 100 gesture_system_init] open_palm_frame_rules
    by (simp add: gesture_names_def)
  have d: "\<exists>gs1. detect_gesture pinch_frame 100 gesture_system_init = Inr (''pinch'', gs1)
      \<and> gesture_confidence gs1 =
          map (\<lambda>h. (h, if h = ''pinch'' then spec_confidence ''pinch'' else 0)) gesture_names"
    using C2_exclusive_gesture_wins [OF example_frame_lengths(6) _ pinch_frame_rules(5) _ T,
        of 100 gesture_system_init] pinch_frame_rules
    by (simp add: gesture_names_def)
  have e: "\<exists>gs1. detect_gesture rock_sign_frame 100 gesture_system_init = Inr (''rock_sign'', gs1)
      \<and> gesture_confidence gs1 =
          map (\<lambda>h. (h, if h = ''rock_sign'' then spec_confidence ''rock_sign'' else 0))
            gesture_names"
    using C2_exclusive_gesture_wins [OF example_frame_lengths(5) _ rock_sign_frame_rules(6) _ T,
        of 100 gesture_system_init] rock_sign_frame_rules
    by (simp add: gesture_names_def)
  have f: "\<exists>gs1. detect_gesture thumbs_up_frame 100 gesture_system_init = Inr (''thumbs_up'', gs1)
      \<and> gesture_confidence gs1 =
          [(''fist'', 0.8), (''thumbs_up'', 0.9), (''peace'', 0), (''open_palm'', 0),
           (''pinch'', 0), (''rock_sign'', 0)]"
  proof -
    have mem: "''fist'' \<in> {''fist'', ''peace'', ''open_palm'', ''pinch'', ''rock_sign''}"
      by simp
    have excl: "\<forall>h\<in>set gesture_names. h \<noteq> ''fist'' \<longrightarrow> \<not> spec_predicate h fist_frame"
      using fist_frame_rules by (simp add: gesture_names_def)
    from C2_exclusive_gesture_wins [OF example_frame_lengths(1) mem fist_frame_rules(1) excl T,
        of 100 gesture_system_init, unfolded if_not_P [OF pinch]]
    show ?thesis by blast
  qed
  show ?thesis
    using a b c d e f
    by (simp add: gesture_names_def spec_confidence_def)
qed

text \<open>
  Claim C2 as stated fails for thumbs up: on the frame with only the thumb extended
  (pinch distance above 0.05) the result is thumbs up with 0.9, but the fist scores 0.8,
  not 0.
\<close>

theorem C2_thumbs_up_counterexample:
  "spec_predicate ''thumbs_up'' thumbs_up_frame
   \<and> \<not> spec_predicate ''pinch'' thumbs_up_frame
   \<and> detect_gesture thumbs_up_frame 100 gesture_system_init =
       Inr (''thumbs_up'',
            \<lparr>gesture_confidence =
               [(''fist'', 0.8), (''thumbs_up'', 0.9), (''peace'', 0), (''open_palm'', 0),
                (''pinch'', 0), (''rock_sign'', 0)],
             gesture_history = [(''thumbs_up'', 100)], max_history = 10,
             last_gesture_time = 100, gesture_cooldown = 1\<rparr>)"
  using thumbs_up_frame_rules
  by (simp add: detect_gesture_scored example_frame_lengths gesture_names_def
      spec_confidence_def gesture_system_init_def)

lemma run_detect_bounded:
  assumes "run_detect gs cs = Inr (out, gs1)" "length (gesture_history gs) \<le> max_history gs"
    "0 < max_history gs"
  shows "length (gesture_history gs1) \<le> max_history gs"
  using assms
proof (induction cs arbitrary: gs out)
  case Nil
  then show ?case by simp
next
  case (Cons c cs)
  obtain landmarks now where c: "c = (landmarks, now)" by (cases c)
  from Cons.prems(1) obtain g gs2 rest where
    step: "detect_gesture landmarks now gs = Inr (g, gs2)"
    and run: "run_detect gs2 cs = Inr (rest, gs1)"
    by (auto simp: c split: sum.splits prod.splits)
  note h = detect_gesture_history [OF step]
  have "length (gesture_history gs2) \<le> max_history gs2"
    using Cons.prems(2,3) unfolding h(1) h(2) by auto
  moreover have "0 < max_history gs2"
    using Cons.prems(3) h(2) by simp
  ultimately have "length (gesture_history gs1) \<le> max_history gs2"
    using Cons.IH [OF run] by simp
  then show ?case using h(2) by simp
qed

text \<open>
  Claim C7. With capacity 10 and cooldown 1.0 s: a run of calls that starts with at most
  ten entries ends with at most ten. A single call appends the returned gesture with
  its time stamp at the end exactly when a gesture was recognised and more than 1.0 s
  have passed since the last append, dropping the oldest entry when ten were stored, and
  leaves the history alone otherwise. The gesture returned for a frame is the same
  for every clock value and every state of the classifier.
\<close>

theorem C7_history_bounded_and_throttled:
  assumes "max_history gs = 10" "gesture_cooldown gs = 1"
    and "length (gesture_history gs) \<le> 10"
    and "run_detect gs cs = Inr (out, gs')"
    and "detect_gesture landmarks now gs = Inr (g, gs1)"
  shows "length (gesture_history gs') \<le> 10
       \<and> gesture_history gs1 =
           (if g \<notin> {''none'', ''unknown''} \<and> 1 < now - last_gesture_time gs
            then (if length (gesture_history gs) < 10
                  then gesture_history gs @ [(g, now)]
                  else tl (gesture_history gs) @ [(g, now)])
            else gesture_history gs)
       \<and> map_sum id fst (detect_gesture landmarks now2 gs2) = Inr g"
proof -
  have bound: "length (gesture_history gs') \<le> 10"
    using run_detect_bounded [OF assms(4)] assms(1,3) by simp
  have hist: "gesture_history gs1 =
           (if g \<notin> {''none'', ''unknown''} \<and> 1 < now - last_gesture_time gs
            then (if length (gesture_history gs) < 10
                  then gesture_history gs @ [(g, now)]
                  else tl (gesture_history gs) @ [(g, now)])
            else gesture_history gs)"
  proof (cases "length (gesture_history gs) < 10")
    case True
    then show ?thesis
      using detect_gesture_history(1) [OF assms(5)] assms(1,2) by simp
  next
    case False
    then have "gesture_history gs \<noteq> []" by auto
    then have "tl (gesture_history gs @ [(g, now)]) = tl (gesture_history gs) @ [(g, now)]"
      by simp
    then show ?thesis
      using detect_gesture_history(1) [OF assms(5)] assms(1,2) False by simp
  qed
  obtain gs3 where "detect_gesture landmarks now2 gs2 = Inr (g, gs3)"
    using detect_gesture_fresh [OF assms(5)] by blast
  then have "map_sum id fst (detect_gesture landmarks now2 gs2) = Inr g"
    by simp
  with bound hist show ?thesis by blast
qed

lemma example_detections:
  "detect_gesture fist_frame now gs =
     (let c = [(''fist'', 0.8), (''thumbs_up'', 0), (''peace'', 0), (''open_palm'', 0),
               (''pinch'', 0), (''rock_sign'', 0)]
      in if now - last_gesture_time gs > gesture_cooldown gs
         then Inr (''fist'', gs\<lparr>gesture_confidence := c,
                    gesture_history :=
                      (if length (gesture_history gs) < max_history gs
                       then gesture_history gs @ [(''fist'', now)]
                       else tl (gesture_history gs @ [(''fist'', now)])),
                    last_gesture_time := now\<rparr>)
         else Inr (''fist'', gs\<lparr>gesture_confidence := c\<rparr>))"
  "detect_gesture peace_frame now gs =
     (let c = [(''fist'', 0), (''thumbs_up'', 0), (''peace'', 0.9), (''open_palm'', 0),
               (''pinch'', 0), (''rock_sign'', 0)]
      in if now - last_gesture_time gs > gesture_cooldown gs
         then Inr (''peace'', gs\<lparr>gesture_confidence := c,
                    gesture_history :=
                      (if length (gesture_history gs) < max_history gs
                       then gesture_history gs @ [(''peace'', now)]
                       else tl (gesture_history gs @ [(''peace'', now)])),
                    last_gesture_time := now\<rparr>)
         else Inr (''peace'', gs\<lparr>gesture_confidence := c\<rparr>))"
  using fist_frame_rules peace_frame_rules
  by (simp_all add: detect_gesture_scored example_frame_lengths gesture_names_def
      spec_confidence_def Let_def)

theorem C7_history_witness:
  "max_history full_gesture_system = 10 \<and> gesture_cooldown full_gesture_system = 1
   \<and> length (gesture_history full_gesture_system) \<le> 10
   \<and> run_detect full_gesture_system
        [(fist_frame, 200), (peace_frame, 200 + 1/2), (peace_frame, 202)] =
       Inr ([''fist'', ''peace'', ''peace''],
            \<lparr>gesture_confidence =
               [(''fist'', 0), (''thumbs_up'', 0), (''peace'', 0.9), (''open_palm'', 0),
                (''pinch'', 0), (''rock_sign'', 0)],
             gesture_history =
               [(''fist'', 30), (''fist'', 40), (''fist'', 50), (''fist'', 60), (''fist'', 70),
                (''fist'', 80), (''fist'', 90), (''fist'', 100), (''fist'', 200),
                (''peace'', 202)],
             max_history = 10, last_gesture_time = 202, gesture_cooldown = 1\<rparr>)
   \<and> detect_gesture peace_frame 200 full_gesture_system =
       Inr (''peace'',
            \<lparr>gesture_confidence =
               [(''fist'', 0), (''thumbs_up'', 0), (''peace'', 0.9), (''open_palm'', 0),
                (''pinch'', 0), (''rock_sign'', 0)],
             gesture_history =
               [(''fist'', 20), (''fist'', 30), (''fist'', 40), (''fist'', 50), (''fist'', 60),
                (''fist'', 70), (''fist'', 80), (''fist'', 90), (''fist'', 100),
                (''peace'', 200)],
             max_history = 10, last_gesture_time = 200, gesture_cooldown = 1\<rparr>)
   \<and> map_sum id fst (detect_gesture peace_frame (100 + 1/2) gesture_system_init)
       = Inr ''peace''"
proof -
  have run: "run_detect full_gesture_system
        [(fist_frame, 200), (peace_frame, 200 + 1/2), (peace_frame, 202)] =
       Inr ([''fist'', ''peace'', ''peace''],
            \<lparr>gesture_confidence =
               [(''fist'', 0), (''thumbs_up'', 0), (''peace'', 0.9), (''open_palm'', 0),
                (''pinch'', 0), (''rock_sign'', 0)],
             gesture_history =
               [(''fist'', 30), (''fist'', 40), (''fist'', 50), (''fist'', 60), (''fist'', 70),
                (''fist'', 80), (''fist'', 90), (''fist'', 100), (''fist'', 200),
                (''peace'', 202)],
             max_history = 10, last_gesture_time = 202, gesture_cooldown = 1\<rparr>)"
    by (simp add: example_detections full_gesture_system_def Let_def)
  have one: "detect_gesture peace_frame 200 full_gesture_system =
       Inr (''peace'',
            \<lparr>gesture_confidence =
               [(''fist'', 0), (''thumbs_up'', 0), (''peace'', 0.9), (''open_palm'', 0),
                (''pinch'', 0), (''rock_sign'', 0)],
             gesture_history =
               [(''fist'', 20), (''fist'', 30), (''fist'', 40), (''fist'', 50), (''fist'', 60),
                (''fist'', 70), (''fist'', 80), (''fist'', 90), (''fist'', 100),
                (''peace'', 200)],
             max_history = 10, last_gesture_time = 200, gesture_cooldown = 1\<rparr>)"
    by (simp add: example_detections full_gesture_system_def Let_def)
  have pre: "max_history full_gesture_system = 10" "gesture_cooldown full_gesture_system = 1"
    "length (gesture_history full_gesture_system) \<le> 10"
    by (simp_all add: full_gesture_system_def)
  from C7_history_bounded_and_throttled [OF pre run one, of "100 + 1/2" gesture_system_init]
  show ?thesis using pre run one by simp
qed

section \<open>Tool selection: properties\<close>

text \<open>
  Claim C4. On a frame of 21 landmarks with index and pinky above their base joints and
  middle and ring not, the classifier returns \<open>rotate\<close> with 0.9 when the thumb is
  extended and \<open>extrude\<close> with 0.9 when it is not. On every frame of 21 landmarks at
  most one of the six conditions of the chain holds, and the classifier returns no tool
  exactly when none does.
\<close>

theorem C4_rotate_or_extrude:
  assumes "length landmarks = 21"
    and "lm_y (landmarks ! 8) < lm_y (landmarks ! 5)"
    and "lm_y (landmarks ! 20) < lm_y (landmarks ! 17)"
    and "\<not> lm_y (landmarks ! 12) < lm_y (landmarks ! 9)"
    and "\<not> lm_y (landmarks ! 16) < lm_y (landmarks ! 13)"
    and "length other = 21"
  shows "detect_tool_selection_gesture landmarks =
           Inr (Some (if thumb_aligned (landmarks ! 0) (landmarks ! 2) (landmarks ! 4)
                      then ''rotate'' else ''extrude'', 0.9))
       \<and> sum_bool (tool_patterns other) \<le> 1
       \<and> (detect_tool_selection_gesture other = Inr None) = (sum_bool (tool_patterns other) = 0)"
proof -
  have first: "detect_tool_selection_gesture landmarks =
           Inr (Some (if thumb_aligned (landmarks ! 0) (landmarks ! 2) (landmarks ! 4)
                      then ''rotate'' else ''extrude'', 0.9))"
    using assms(1-5)
    by (simp add: detect_tool_selection_gesture_def pt_is_thumb_extended_def Let_def)
  have second: "sum_bool (tool_patterns other) \<le> 1"
    by (simp add: tool_patterns_def sum_bool_def Let_def)
  have third: "(detect_tool_selection_gesture other = Inr None)
                 = (sum_bool (tool_patterns other) = 0)"
    using assms(6)
    by (simp add: detect_tool_selection_gesture_def pt_is_thumb_extended_def
        tool_patterns_def sum_bool_def Let_def)
  from first second third show ?thesis by blast
qed

lemma example_thumbs:
  "thumb_aligned (phone_frame ! 0) (phone_frame ! 2) (phone_frame ! 4)"
  "\<not> thumb_aligned (rock_sign_frame ! 0) (rock_sign_frame ! 2) (rock_sign_frame ! 4)"
  by (simp_all add: phone_frame_def rock_sign_frame_def pose_frame_def thumb_aligned_iff
      thumb_out_def thumb_in_def lm_x_def lm_y_def power2_eq_square)

theorem C4_rotate_or_extrude_witness:
  "detect_tool_selection_gesture phone_frame = Inr (Some (''rotate'', 0.9))
   \<and> detect_tool_selection_gesture rock_sign_frame = Inr (Some (''extrude'', 0.9))
   \<and> sum_bool (tool_patterns peace_frame) \<le> 1
   \<and> detect_tool_selection_gesture fist_frame = Inr None
   \<and> sum_bool (tool_patterns fist_frame) = 0"
proof -
  have p: "lm_y (phone_frame ! 8) < lm_y (phone_frame ! 5)"
    "lm_y (phone_frame ! 20) < lm_y (phone_frame ! 17)"
    "\<not> lm_y (phone_frame ! 12) < lm_y (phone_frame ! 9)"
    "\<not> lm_y (phone_frame ! 16) < lm_y (phone_frame ! 13)"
    by (simp_all add: phone_frame_def pose_frame_def index_up_def lm_y_def)
  have r: "lm_y (rock_sign_frame ! 8) < lm_y (rock_sign_frame ! 5)"
    "lm_y (rock_sign_frame ! 20) < lm_y (rock_sign_frame ! 17)"
    "\<not> lm_y (rock_sign_frame ! 12) < lm_y (rock_sign_frame ! 9)"
    "\<not> lm_y (rock_sign_frame ! 16) < lm_y (rock_sign_frame ! 13)"
    by (simp_all add: rock_sign_frame_def pose_frame_def index_up_def lm_y_def)
  have none: "sum_bool (tool_patterns fist_frame) = 0"
    by (simp add: tool_patterns_def sum_bool_def Let_def fist_frame_def pose_frame_def
        index_down_def lm_y_def)
  note A = C4_rotate_or_extrude [OF example_frame_lengths(10) p example_frame_lengths(3)]
  note B = C4_rotate_or_extrude [OF example_frame_lengths(5) r example_frame_lengths(1)]
  show ?thesis
    using A B none example_thumbs by simp
qed

section \<open>Pinch distance and precision gestures: properties\<close>

lemma detect_tool_total:
  assumes "20 < length landmarks"
  shows "\<exists>r. detect_tool_selection_gesture landmarks = Inr r"
  using assms
  by (simp add: detect_tool_selection_gesture_def pt_is_thumb_extended_def Let_def)

lemma detect_precise_entries:
  assumes "20 < length (out_landmarks d)"
  shows "\<exists>m. detect_precise_gestures (Some d) = Inr m
           \<and> m ''precision_point'' =
               (if is_index_precision_pointing (out_landmarks d) (out_velocities d)
                then Some (PointEntry 0.9 (out_landmarks d ! 8)
                             (get_pointing_direction (out_landmarks d)))
                else None)
           \<and> m ''pinch'' =
               (if measure_pinch (out_landmarks d) < 0.05
                then Some (PinchEntry 0.9
                             ((lm_x (out_landmarks d ! 4) + lm_x (out_landmarks d ! 8)) / 2,
                              (lm_y (out_landmarks d ! 4) + lm_y (out_landmarks d ! 8)) / 2,
                              (lm_z (out_landmarks d ! 4) + lm_z (out_landmarks d ! 8)) / 2)
                             (1.0 - measure_pinch (out_landmarks d) * 20))
                else None)
           \<and> m ''spread_scale'' =
               Some (SpreadEntry (if measure_finger_spread (out_landmarks d) > 0.3 then 0.7 else 0.0)
                       (measure_finger_spread (out_landmarks d) * 3))"
proof -
  obtain r where r: "detect_tool_selection_gesture (out_landmarks d) = Inr r"
    using detect_tool_total [OF assms] by blast
  have len: "\<not> length (out_landmarks d) \<le> 20" using assms by simp
  show ?thesis
  proof (cases r)
    case None
    show ?thesis
      unfolding detect_precise_gestures_def option.case Let_def r None sum.case if_not_P [OF len]
      by (intro exI conjI, rule refl) simp_all
  next
    case (Some t)
    show ?thesis
      unfolding detect_precise_gestures_def option.case Let_def r Some sum.case if_not_P [OF len]
      by (intro exI conjI, rule refl) simp_all
  qed
qed

lemma sqrt_eq_numeral: "0 \<le> y \<Longrightarrow> y * y = x \<Longrightarrow> sqrt x = y"
  by (rule real_sqrt_unique) (simp_all add: power2_eq_square)

lemma norm3_along_x: "norm3 (a, 0, 0) = \<bar>a\<bar>"
  by (simp add: norm3_def lm_x_def lm_y_def lm_z_def)

lemma coarse_pinch_confidence:
  assumes "20 < length landmarks"
  shows "\<exists>g gs1. detect_gesture landmarks now gs = Inr (g, gs1)
           \<and> map_of (gesture_confidence gs1) ''pinch'' =
               Some (if coarse_pinch_distance landmarks < 0.05 then 0.8 else 0)"
proof -
  have ne: "landmarks \<noteq> []" and len: "\<not> length landmarks \<le> 20"
    using assms by auto
  have pinch: "map_of (score_gestures s (coarse_pinch_distance landmarks)) ''pinch'' =
      Some (if coarse_pinch_distance landmarks < 0.05 then 0.8 else 0)" for s
    unfolding score_gestures_def Let_def by simp
  show ?thesis
    unfolding detect_gesture_def if_not_P [OF ne] if_not_P [OF len] Let_def
    using pinch [of "finger_states landmarks"]
    by (auto split: if_splits)
qed

text \<open>
  Claim C3, as the code has it. The precision detector measures the pinch as the
  distance of thumb tip and index tip over x, y and z and reports \<open>pinch\<close> (confidence
  0.9) exactly when it is below 0.05. The coarse classifier measures it over x and y
  only and scores \<open>pinch\<close> with 0.8 exactly when that distance is below 0.05, with 0
  otherwise.
\<close>

theorem C3_pinch_distances:
  assumes "length landmarks = 21" "out_landmarks d = landmarks"
  shows "coarse_pinch_distance landmarks =
           sqrt ((lm_x (landmarks ! 4) - lm_x (landmarks ! 8))\<^sup>2
                 + (lm_y (landmarks ! 4) - lm_y (landmarks ! 8))\<^sup>2)
       \<and> (\<exists>g gs1. detect_gesture landmarks now gs = Inr (g, gs1)
             \<and> map_of (gesture_confidence gs1) ''pinch'' =
                 Some (if coarse_pinch_distance landmarks < 0.05 then 0.8 else 0))
       \<and> measure_pinch landmarks =
           sqrt ((lm_x (landmarks ! 4) - lm_x (landmarks ! 8))\<^sup>2
                 + (lm_y (landmarks ! 4) - lm_y (landmarks ! 8))\<^sup>2
                 + (lm_z (landmarks ! 4) - lm_z (landmarks ! 8))\<^sup>2)
       \<and> (\<exists>m. detect_precise_gestures (Some d) = Inr m
             \<and> map_option confidence (m ''pinch'') =
                 (if measure_pinch landmarks < 0.05 then Some 0.9 else None))"
proof -
  have len: "20 < length landmarks" "20 < length (out_landmarks d)"
    using assms by simp_all
  have a: "coarse_pinch_distance landmarks =
           sqrt ((lm_x (landmarks ! 4) - lm_x (landmarks ! 8))\<^sup>2
                 + (lm_y (landmarks ! 4) - lm_y (landmarks ! 8))\<^sup>2)"
    by (simp add: coarse_pinch_distance_def Let_def)
  have c: "measure_pinch landmarks =
           sqrt ((lm_x (landmarks ! 4) - lm_x (landmarks ! 8))\<^sup>2
                 + (lm_y (landmarks ! 4) - lm_y (landmarks ! 8))\<^sup>2
                 + (lm_z (landmarks ! 4) - lm_z (landmarks ! 8))\<^sup>2)"
    by (simp add: measure_pinch_def Let_def norm3_def sub3_def lm_x_def lm_y_def lm_z_def)
  obtain m where m: "detect_precise_gestures (Some d) = Inr m"
    and p: "m ''pinch'' =
               (if measure_pinch (out_landmarks d) < 0.05
                then Some (PinchEntry 0.9
                             ((lm_x (out_landmarks d ! 4) + lm_x (out_landmarks d ! 8)) / 2,
                              (lm_y (out_landmarks d ! 4) + lm_y (out_landmarks d ! 8)) / 2,
                              (lm_z (out_landmarks d ! 4) + lm_z (out_landmarks d ! 8)) / 2)
                             (1.0 - measure_pinch (out_landmarks d) * 20))
                else None)"
    using detect_precise_entries [OF len(2)] by blast
  have "map_option confidence (m ''pinch'') =
                 (if measure_pinch landmarks < 0.05 then Some 0.9 else None)"
    unfolding p assms(2) by simp
  with m have dd: "\<exists>m. detect_precise_gestures (Some d) = Inr m
             \<and> map_option confidence (m ''pinch'') =
                 (if measure_pinch landmarks < 0.05 then Some 0.9 else None)"
    by blast
  from a coarse_pinch_confidence [OF len(1), of now gs] c dd show ?thesis
    by blast
qed

lemma example_pinch_distances:
  "coarse_pinch_distance pinch_near_frame = 0.0499"
  "coarse_pinch_distance pinch_far_frame = 0.0501"
  "coarse_pinch_distance pinch_depth_frame = 0"
  "measure_pinch pinch_near_frame = 0.0499"
  "measure_pinch pinch_depth_frame = 0.2"
  unfolding coarse_pinch_distance_def measure_pinch_def Let_def norm3_def sub3_def
    fst_conv snd_conv
  by (rule sqrt_eq_numeral;
      simp add: pinch_near_frame_def pinch_far_frame_def pinch_depth_frame_def pose_frame_def
        thumb_out_def lm_x_def lm_y_def lm_z_def power2_eq_square)+

theorem C3_pinch_distances_witness:
  "coarse_pinch_distance pinch_near_frame = 0.0499
   \<and> (\<exists>g gs1. detect_gesture pinch_near_frame 100 gesture_system_init = Inr (g, gs1)
         \<and> map_of (gesture_confidence gs1) ''pinch'' = Some 0.8)
   \<and> coarse_pinch_distance pinch_far_frame = 0.0501
   \<and> (\<exists>g gs1. detect_gesture pinch_far_frame 100 gesture_system_init = Inr (g, gs1)
         \<and> map_of (gesture_confidence gs1) ''pinch'' = Some 0)
   \<and> measure_pinch pinch_near_frame = 0.0499
   \<and> (\<exists>m. detect_precise_gestures (Some (output_of pinch_near_frame)) = Inr m
         \<and> map_option confidence (m ''pinch'') = Some 0.9)
   \<and> measure_pinch pinch_depth_frame = 0.2
   \<and> (\<exists>m. detect_precise_gestures (Some (output_of pinch_depth_frame)) = Inr m
         \<and> map_option confidence (m ''pinch'') = None)"
proof -
  have o: "out_landmarks (output_of f) = f" for f
    by (simp add: output_of_def)
  note A = C3_pinch_distances [OF example_frame_lengths(7) o, of 100 gesture_system_init,
      unfolded example_pinch_distances]
  note B = C3_pinch_distances [OF example_frame_lengths(8) o, of 100 gesture_system_init,
      unfolded example_pinch_distances]
  note C = C3_pinch_distances [OF example_frame_lengths(9) o, of 100 gesture_system_init,
      unfolded example_pinch_distances]
  show ?thesis
    using A B C by (simp add: example_pinch_distances)
qed

text \<open>
  Claim C3 as stated fails for the coarse classifier: with the index tip straight behind
  the thumb tip, 0.2 deeper, the distance over x, y and z is 0.2, yet the frame is
  classified as pinch with confidence 0.8.
\<close>

theorem C3_depth_ignored_counterexample:
  "measure_pinch pinch_depth_frame = 0.2
   \<and> \<not> measure_pinch pinch_depth_frame < 0.05
   \<and> detect_gesture pinch_depth_frame 100 gesture_system_init =
       Inr (''pinch'',
            \<lparr>gesture_confidence =
               [(''fist'', 0), (''thumbs_up'', 0), (''peace'', 0), (''open_palm'', 0),
                (''pinch'', 0.8), (''rock_sign'', 0)],
             gesture_history = [(''pinch'', 100)], max_history = 10,
             last_gesture_time = 100, gesture_cooldown = 1\<rparr>)"
  using pinch_depth_frame_rules
  by (simp add: example_pinch_distances detect_gesture_scored example_frame_lengths
      gesture_names_def spec_confidence_def gesture_system_init_def)

text \<open>
  Claim C8. Called with the tracker's output for a frame of 21 landmarks, the
  detector always stores a \<open>spread_scale\<close> entry: its confidence is 0.7 when the mean
  of the three distances between neighbouring tips of index, middle, ring and pinky
  exceeds 0.3 and 0 otherwise, and its scale factor is three times that mean in both
  cases.
\<close>

theorem C8_spread_scale_present:
  assumes "length (out_landmarks d) = 21"
  shows "measure_finger_spread (out_landmarks d) =
           (norm3 (sub3 (out_landmarks d ! 8) (out_landmarks d ! 12))
            + norm3 (sub3 (out_landmarks d ! 12) (out_landmarks d ! 16))
            + norm3 (sub3 (out_landmarks d ! 16) (out_landmarks d ! 20))) / 3
       \<and> (\<exists>m. detect_precise_gestures (Some d) = Inr m
             \<and> m ''spread_scale'' =
                 Some (SpreadEntry
                         (if measure_finger_spread (out_landmarks d) > 0.3 then 0.7 else 0)
                         (measure_finger_spread (out_landmarks d) * 3)))"
proof -
  have len: "20 < length (out_landmarks d)" using assms by simp
  have mean: "measure_finger_spread (out_landmarks d) =
           (norm3 (sub3 (out_landmarks d ! 8) (out_landmarks d ! 12))
            + norm3 (sub3 (out_landmarks d ! 12) (out_landmarks d ! 16))
            + norm3 (sub3 (out_landmarks d ! 16) (out_landmarks d ! 20))) / 3"
    by (simp add: measure_finger_spread_def Let_def)
  obtain m where "detect_precise_gestures (Some d) = Inr m"
    and "m ''spread_scale'' =
               Some (SpreadEntry (if measure_finger_spread (out_landmarks d) > 0.3 then 0.7 else 0.0)
                       (measure_finger_spread (out_landmarks d) * 3))"
    using detect_precise_entries [OF len] by blast
  then have "\<exists>m. detect_precise_gestures (Some d) = Inr m
             \<and> m ''spread_scale'' =
                 Some (SpreadEntry
                         (if measure_finger_spread (out_landmarks d) > 0.3 then 0.7 else 0)
                         (measure_finger_spread (out_landmarks d) * 3))"
    by simp
  with mean show ?thesis by blast
qed

lemma example_spreads:
  "measure_finger_spread open_palm_frame = 0.05"
  "measure_finger_spread spread_frame = 0.32"
  by (simp_all add: measure_finger_spread_def Let_def spread_frame_def open_palm_frame_def
      pose_frame_def index_up_def sub3_def lm_x_def lm_y_def lm_z_def norm3_along_x)

theorem C8_spread_scale_witness:
  "measure_finger_spread open_palm_frame = 0.05
   \<and> (\<exists>m. detect_precise_gestures (Some (output_of open_palm_frame)) = Inr m
         \<and> m ''spread_scale'' = Some (SpreadEntry 0 0.15))
   \<and> measure_finger_spread spread_frame = 0.32
   \<and> (\<exists>m. detect_precise_gestures (Some (output_of spread_frame)) = Inr m
         \<and> m ''spread_scale'' = Some (SpreadEntry 0.7 0.96))"
proof -
  have o: "out_landmarks (output_of f) = f" for f
    by (simp add: output_of_def)
  have l: "length (out_landmarks (output_of open_palm_frame)) = 21"
    "length (out_landmarks (output_of spread_frame)) = 21"
    by (simp_all add: o spread_frame_def example_frame_lengths)
  note A = C8_spread_scale_present [OF l(1), unfolded o example_spreads]
  note B = C8_spread_scale_present [OF l(2), unfolded o example_spreads]
  show ?thesis
    using A B by (simp add: example_spreads)
qed

section \<open>Tracker update: properties\<close>

lemma filter_tips_length:
  "length (fst (filter_tips kf_step kf_pos is landmarks fs filtered)) = length filtered"
  by (induction "is" arbitrary: fs filtered) (simp_all add: Let_def)

lemma filter_tips_untouched:
  "i \<notin> set is \<Longrightarrow>
     fst (filter_tips kf_step kf_pos is landmarks fs filtered) ! i = filtered ! i"
  by (induction "is" arbitrary: fs filtered) (simp_all add: Let_def)

lemma filter_tips_value:
  assumes "distinct is" "i \<in> set is" "i < length filtered"
  shows "fst (filter_tips kf_step kf_pos is landmarks fs filtered) ! i
           = kf_pos (kf_step (fs i) (landmarks ! i))"
  using assms
proof (induction "is" arbitrary: fs filtered)
  case Nil
  then show ?case by simp
next
  case (Cons j js)
  define f where "f = kf_step (fs j) (landmarks ! j)"
  have step: "filter_tips kf_step kf_pos (j # js) landmarks fs filtered
                = filter_tips kf_step kf_pos js landmarks (fs(j := f)) (filtered[j := kf_pos f])"
    by (simp add: Let_def f_def)
  show ?case
  proof (cases "i = j")
    case True
    have "j \<notin> set js" using Cons.prems(1) by simp
    then have "fst (filter_tips kf_step kf_pos js landmarks (fs(j := f))
                     (filtered[j := kf_pos f])) ! j = (filtered[j := kf_pos f]) ! j"
      by (rule filter_tips_untouched)
    also have "\<dots> = kf_pos f"
      using Cons.prems(3) True by simp
    finally show ?thesis
      unfolding step True f_def .
  next
    case False
    have d: "distinct js" and m: "i \<in> set js"
      using Cons.prems(1,2) False by simp_all
    have l: "i < length (filtered[j := kf_pos f])"
      using Cons.prems(3) by simp
    have "fst (filter_tips kf_step kf_pos js landmarks (fs(j := f))
                (filtered[j := kf_pos f])) ! i
            = kf_pos (kf_step ((fs(j := f)) i) (landmarks ! i))"
      by (rule Cons.IH [OF d m l])
    then show ?thesis
      unfolding step using False by simp
  qed
qed

lemma update_first:
  assumes "prev_landmarks tr = None" "20 < length landmarks"
  shows "\<exists>d tr1. update kf_step kf_pos (Some landmarks) tr = Inr (Some d, tr1)
           \<and> out_velocities d = Map.empty
           \<and> length (out_landmarks d) = length landmarks
           \<and> prev_landmarks tr1 = Some (out_landmarks d)"
proof -
  obtain fl fs where ft:
    "filter_tips kf_step kf_pos fingertips landmarks (filters tr) landmarks = (fl, fs)"
    by (cases "filter_tips kf_step kf_pos fingertips landmarks (filters tr) landmarks")
  have "length fl = length landmarks"
    using filter_tips_length [of kf_step kf_pos fingertips landmarks "filters tr" landmarks]
    by (simp add: ft)
  then show ?thesis
    using assms by (simp add: update_def Let_def ft)
qed

lemma update_later:
  assumes "prev_landmarks tr = Some prev" "20 < length prev" "20 < length landmarks"
  shows "\<exists>d tr1. update kf_step kf_pos (Some landmarks) tr = Inr (Some d, tr1)
           \<and> dom (out_velocities d) = {4, 8, 12, 16, 20}
           \<and> (\<forall>i\<in>{4, 8, 12, 16, 20}.
                 out_landmarks d ! i = kf_pos (kf_step (filters tr i) (landmarks ! i))
                 \<and> out_velocities d i = Some (sub3 (out_landmarks d ! i) (prev ! i)))
           \<and> length (out_landmarks d) = length landmarks
           \<and> prev_landmarks tr1 = Some (out_landmarks d)"
proof -
  obtain fl fs where ft:
    "filter_tips kf_step kf_pos fingertips landmarks (filters tr) landmarks = (fl, fs)"
    by (cases "filter_tips kf_step kf_pos fingertips landmarks (filters tr) landmarks")
  have len: "length fl = length landmarks"
    using filter_tips_length [of kf_step kf_pos fingertips landmarks "filters tr" landmarks]
    by (simp add: ft)
  have val: "fl ! i = kf_pos (kf_step (filters tr i) (landmarks ! i))"
    if "i \<in> {4, 8, 12, 16, 20}" for i
  proof -
    have "distinct fingertips" "i \<in> set fingertips" "i < length landmarks"
      using that assms(3) by (auto simp: fingertips_def)
    from filter_tips_value [OF this, of kf_step kf_pos landmarks "filters tr"]
    show ?thesis by (simp add: ft)
  qed
  define d where "d = \<lparr>out_landmarks = fl,
                        out_velocities =
                          map_of (map (\<lambda>i. (i, sub3 (fl ! i) (prev ! i))) fingertips),
                        out_stable_palm = get_stable_palm fl\<rparr>"
  have u: "update kf_step kf_pos (Some landmarks) tr =
             Inr (Some d, tr\<lparr>landmark_history :=
                       (if length (landmark_history tr @ [landmarks]) > history_max tr
                        then tl (landmark_history tr @ [landmarks])
                        else landmark_history tr @ [landmarks]),
                     filters := fs, prev_landmarks := Some fl\<rparr>)"
    using assms by (simp add: update_def Let_def ft d_def)
  have dm: "dom (out_velocities d) = {4, 8, 12, 16, 20}"
    by (auto simp: d_def fingertips_def dom_map_of_conv_image_fst)
  have vel: "out_velocities d i = Some (sub3 (out_landmarks d ! i) (prev ! i))"
    if "i \<in> {4, 8, 12, 16, 20}" for i
    using that by (auto simp: d_def fingertips_def)
  have ol: "out_landmarks d = fl" by (simp add: d_def)
  show ?thesis
    using u dm vel val len by (auto simp: ol)
qed

text \<open>
  Claim C10, as the code has it. On the update of a tracker that holds no previous frame
  (as a new tracker does) the velocity map is empty, and the detector reports no
  \<open>precision_point\<close> for that frame, whatever the pose. Every update stores its
  filtered frame as the previous one and nothing clears it: an update of a tracker that
  holds a previous frame, such as the first one after the hand was lost and found again,
  has a velocity entry for exactly the five fingertips, and each entry is the filtered
  position of the tip in the new frame minus its position in the stored frame.
\<close>

theorem C10_first_update_has_no_velocity:
  assumes "prev_landmarks tr = None" "length landmarks = 21"
    and "prev_landmarks tr2 = Some prev" "length prev = 21"
  shows "(\<exists>d tr1. update kf_step kf_pos (Some landmarks) tr = Inr (Some d, tr1)
            \<and> out_velocities d = Map.empty
            \<and> prev_landmarks tr1 = Some (out_landmarks d)
            \<and> (\<exists>m. detect_precise_gestures (Some d) = Inr m \<and> m ''precision_point'' = None))
       \<and> (\<exists>d tr1. update kf_step kf_pos (Some landmarks) tr2 = Inr (Some d, tr1)
            \<and> dom (out_velocities d) = {4, 8, 12, 16, 20}
            \<and> (\<forall>i\<in>{4, 8, 12, 16, 20}.
                  out_landmarks d ! i = kf_pos (kf_step (filters tr2 i) (landmarks ! i))
                  \<and> out_velocities d i = Some (sub3 (out_landmarks d ! i) (prev ! i)))
            \<and> prev_landmarks tr1 = Some (out_landmarks d))"
proof -
  have len: "20 < length landmarks" "20 < length prev"
    using assms(2,4) by simp_all
  obtain d tr1 where u: "update kf_step kf_pos (Some landmarks) tr = Inr (Some d, tr1)"
    and v: "out_velocities d = Map.empty"
    and l: "length (out_landmarks d) = length landmarks"
    and p: "prev_landmarks tr1 = Some (out_landmarks d)"
    using update_first [OF assms(1) len(1)] by blast
  have "20 < length (out_landmarks d)" using l len(1) by simp
  from detect_precise_entries [OF this]
  obtain m where m: "detect_precise_gestures (Some d) = Inr m"
    and pp: "m ''precision_point'' =
               (if is_index_precision_pointing (out_landmarks d) (out_velocities d)
                then Some (PointEntry 0.9 (out_landmarks d ! 8)
                             (get_pointing_direction (out_landmarks d)))
                else None)"
    by blast
  have "\<not> is_index_precision_pointing (out_landmarks d) (out_velocities d)"
    by (simp add: is_index_precision_pointing_def v Let_def)
  then have "m ''precision_point'' = None" using pp by simp
  with u v p m have first:
    "\<exists>d tr1. update kf_step kf_pos (Some landmarks) tr = Inr (Some d, tr1)
            \<and> out_velocities d = Map.empty
            \<and> prev_landmarks tr1 = Some (out_landmarks d)
            \<and> (\<exists>m. detect_precise_gestures (Some d) = Inr m \<and> m ''precision_point'' = None)"
    by blast
  have second: "\<exists>d tr1. update kf_step kf_pos (Some landmarks) tr2 = Inr (Some d, tr1)
            \<and> dom (out_velocities d) = {4, 8, 12, 16, 20}
            \<and> (\<forall>i\<in>{4, 8, 12, 16, 20}.
                  out_landmarks d ! i = kf_pos (kf_step (filters tr2 i) (landmarks ! i))
                  \<and> out_velocities d i = Some (sub3 (out_landmarks d ! i) (prev ! i)))
            \<and> prev_landmarks tr1 = Some (out_landmarks d)"
    using update_later [OF assms(3) len(2) len(1), of kf_step kf_pos] by blast
  from first second show ?thesis by blast
qed

lemma last_seen_keeps_frame:
  "fst (filter_tips last_seen_step last_seen_pos is landmarks fs landmarks) = landmarks"
  by (induction "is" arbitrary: fs) (simp_all add: Let_def last_seen_step_def last_seen_pos_def)

lemma cad_frame_first:
  assumes "prev_landmarks tr = None" "20 < length landmarks"
  shows "\<exists>d m tr1. cad_frame last_seen_step last_seen_pos (Some landmarks) tr
                     = Inr ((Some d, m), tr1)
           \<and> out_velocities d = Map.empty \<and> prev_landmarks tr1 = Some landmarks"
proof -
  obtain fl fs where ft:
    "filter_tips last_seen_step last_seen_pos fingertips landmarks (filters tr) landmarks
       = (fl, fs)"
    by (cases "filter_tips last_seen_step last_seen_pos fingertips landmarks (filters tr)
                 landmarks")
  have fl: "fl = landmarks"
    using last_seen_keeps_frame [of fingertips landmarks "filters tr"] by (simp add: ft)
  define d where "d = \<lparr>out_landmarks = landmarks, out_velocities = Map.empty,
                        out_stable_palm = get_stable_palm landmarks\<rparr>"
  have u: "update last_seen_step last_seen_pos (Some landmarks) tr =
             Inr (Some d, tr\<lparr>landmark_history :=
                       (if length (landmark_history tr @ [landmarks]) > history_max tr
                        then tl (landmark_history tr @ [landmarks])
                        else landmark_history tr @ [landmarks]),
                     filters := fs, prev_landmarks := Some landmarks\<rparr>)"
    using assms by (simp add: update_def Let_def ft fl d_def)
  have "20 < length (out_landmarks d)" using assms(2) by (simp add: d_def)
  then obtain m where "detect_precise_gestures (Some d) = Inr m"
    using detect_precise_entries by blast
  then show ?thesis
    using u by (simp add: cad_frame_def d_def)
qed

lemma cad_frame_later:
  assumes "prev_landmarks tr = Some prev" "20 < length prev" "20 < length landmarks"
  shows "\<exists>d m tr1. cad_frame kf_step kf_pos (Some landmarks) tr = Inr ((Some d, m), tr1)
           \<and> out_velocities d 8 \<noteq> None"
proof -
  obtain d tr1 where u: "update kf_step kf_pos (Some landmarks) tr = Inr (Some d, tr1)"
    and dm: "dom (out_velocities d) = {4, 8, 12, 16, 20}"
    and l: "length (out_landmarks d) = length landmarks"
    using update_later [OF assms, of kf_step kf_pos] by blast
  have v: "out_velocities d 8 \<noteq> None"
    using dm by (metis domIff insertI1 insertI2)
  have "20 < length (out_landmarks d)" using l assms(3) by simp
  then obtain m where "detect_precise_gestures (Some d) = Inr m"
    using detect_precise_entries by blast
  then show ?thesis
    using u v by (simp add: cad_frame_def)
qed

lemma point_frame_length: "length point_frame = 21"
  by (simp add: point_frame_def pose_frame_def)

theorem C10_first_update_witness:
  "prev_landmarks (tracker_init origin_filters) = None
   \<and> length point_frame = 21
   \<and> prev_landmarks tracking_example = Some point_frame
   \<and> (\<exists>d tr1. update last_seen_step last_seen_pos (Some point_frame)
                  (tracker_init origin_filters) = Inr (Some d, tr1)
         \<and> out_velocities d = Map.empty
         \<and> prev_landmarks tr1 = Some (out_landmarks d)
         \<and> (\<exists>m. detect_precise_gestures (Some d) = Inr m \<and> m ''precision_point'' = None))
   \<and> (\<exists>d tr1. update last_seen_step last_seen_pos (Some point_frame) tracking_example
                = Inr (Some d, tr1)
         \<and> dom (out_velocities d) = {4, 8, 12, 16, 20}
         \<and> (\<forall>i\<in>{4, 8, 12, 16, 20}.
               out_landmarks d ! i
                 = last_seen_pos (last_seen_step (filters tracking_example i) (point_frame ! i))
               \<and> out_velocities d i = Some (sub3 (out_landmarks d ! i) (point_frame ! i)))
         \<and> prev_landmarks tr1 = Some (out_landmarks d))"
proof -
  have a: "prev_landmarks (tracker_init origin_filters) = None"
    by (simp add: tracker_init_def)
  have b: "prev_landmarks tracking_example = Some point_frame"
    by (simp add: tracking_example_def)
  from C10_first_update_has_no_velocity [OF a point_frame_length b point_frame_length,
      of last_seen_step last_seen_pos]
  show ?thesis using a b point_frame_length by blast
qed

text \<open>
  Claim C10 as stated fails after a re-acquisition: the hand is seen, lost for a frame
  and seen again. The first frame of the run has no velocity entry for the index tip;
  the frame after the loss has one, taken against the frame stored before the loss.
  The stand-in filter only serves to run the frames: by \<open>update_later\<close> the entry is
  there under every filter.
\<close>

theorem C10_reacquisition_counterexample:
  "index_velocity_present
     (cad_run last_seen_step last_seen_pos [Some point_frame, None, Some point_frame]
        (tracker_init origin_filters))
   = Inr [False, False, True]"
proof -
  have len: "20 < length point_frame" by (simp add: point_frame_length)
  have a: "prev_landmarks (tracker_init origin_filters) = None"
    by (simp add: tracker_init_def)
  obtain d1 m1 tr1 where
    f1: "cad_frame last_seen_step last_seen_pos (Some point_frame) (tracker_init origin_filters)
           = Inr ((Some d1, m1), tr1)"
    and v1: "out_velocities d1 = Map.empty"
    and p1: "prev_landmarks tr1 = Some point_frame"
    using cad_frame_first [OF a len] by blast
  have f2: "cad_frame last_seen_step last_seen_pos None tr1 = Inr ((None, Map.empty), tr1)"
    by (simp add: cad_frame_def)
  obtain d3 m3 tr3 where
    f3: "cad_frame last_seen_step last_seen_pos (Some point_frame) tr1
           = Inr ((Some d3, m3), tr3)"
    and v3: "out_velocities d3 8 \<noteq> None"
    using cad_frame_later [OF p1 len len] by blast
  show ?thesis
    using v3 by (simp add: f1 f2 f3 v1 index_velocity_present_def)
qed

end
